theory Spec2Isabelle
  imports Complex_Main "HOL-Library.Sublist" "HOL-Library.Multiset" "HOL-Library.Word"
    "HOL-Library.List_Lexorder"
begin

section \<open>Filter expression parser of the time-series platform library\<close>

text \<open>
  A shallow embedding of \<^verbatim>\<open>FilterExpressionParser.cpp\<close>: the string helpers the
  listener methods call, the data model the parser reads (data set, table, column, row),
  the parser's own state, the identifier-statement and filter-statement listeners and the
  statement executor \<^verbatim>\<open>FilterExpressionParser::Evaluate\<close>.
\<close>

subsection \<open>String helpers\<close>

text \<open>
  The helpers \<^verbatim>\<open>IsEqual\<close> and \<^verbatim>\<open>StartsWith\<close> are declared in the library's common
  header, which is not part of the sources at hand. Their third argument is the
  \<^verbatim>\<open>ignoreCase\<close> flag; the listener passes \<^verbatim>\<open>false\<close> explicitly for operator symbols
  and omits it for keywords.
\<close>

fun ToUpper :: "char \<Rightarrow> char" where
  \<comment> \<open>Modelled from the spec: the single canonical casing strategy is the ASCII fold;
     a letter \<open>a\<close> .. \<open>z\<close> (codes 97 .. 122) loses bit 5, every other byte is kept.\<close>
  "ToUpper (Char b0 b1 b2 b3 b4 b5 b6 b7) =
     (if 97 \<le> (of_char (Char b0 b1 b2 b3 b4 b5 b6 b7) :: nat)
         \<and> (of_char (Char b0 b1 b2 b3 b4 b5 b6 b7) :: nat) \<le> 122
      then Char b0 b1 b2 b3 b4 False b6 b7 else Char b0 b1 b2 b3 b4 b5 b6 b7)"

definition IsEqual :: "string \<Rightarrow> string \<Rightarrow> bool \<Rightarrow> bool" where
  \<comment> \<open>Modelled from the spec: \<^verbatim>\<open>IsEqual(left, right, ignoreCase)\<close> of the common header,
     string equality, case-insensitive when \<open>ignoreCase\<close> is set.\<close>
  "IsEqual left right ignoreCase =
     (if ignoreCase then map ToUpper left = map ToUpper right else left = right)"

definition StartsWith :: "string \<Rightarrow> string \<Rightarrow> bool \<Rightarrow> bool" where
  \<comment> \<open>Modelled from the spec: \<^verbatim>\<open>StartsWith(value, findValue, ignoreCase)\<close> of the common
     header, a prefix test, case-insensitive when \<open>ignoreCase\<close> is set.\<close>
  "StartsWith val findValue ignoreCase =
     (if ignoreCase then prefix (map ToUpper findValue) (map ToUpper val)
      else prefix findValue val)"

datatype error =
    FilterExpressionParserException string
  | ExpressionTreeException string
  | NullReference string
  | OutOfRange string
  | UndefinedBehaviour string

subsection \<open>The convenience surface: the text handed to the parser\<close>

text \<open>
  \<^verbatim>\<open>GenerateExpressionTree\<close> and \<^verbatim>\<open>Select\<close> construct a parser from
  \<^verbatim>\<open>StartsWith(filterExpression, "FILTER ") ? filterExpression :
     "FITLER " + dataTable->Name() + " WHERE " + filterExpression\<close>.
  The default of the omitted \<^verbatim>\<open>ignoreCase\<close> argument is a declaration of the missing
  header, so it is the parameter \<open>ignoreCaseDefault\<close> here.
\<close>

definition GenerateExpressionTree_parserText :: "bool \<Rightarrow> string \<Rightarrow> string \<Rightarrow> string" where
  "GenerateExpressionTree_parserText ignoreCaseDefault tableName filterExpression =
     (if StartsWith filterExpression ''FILTER '' ignoreCaseDefault then filterExpression
      else ''FITLER '' @ tableName @ '' WHERE '' @ filterExpression)"

definition Select_parserText :: "bool \<Rightarrow> string \<Rightarrow> string \<Rightarrow> string" where
  "Select_parserText ignoreCaseDefault tableName filterExpression =
     (if StartsWith filterExpression ''FILTER '' ignoreCaseDefault then filterExpression
      else ''FITLER '' @ tableName @ '' WHERE '' @ filterExpression)"

subsection \<open>Function-name lowering\<close>

datatype ExpressionFunctionType =
  Coalesce | Convert | IIf | IsRegExMatch | Len | RegExVal | SubString | Trim

text \<open>
  The head of \<^verbatim>\<open>exitFunctionExpression\<close>: the chain of tests that chooses the function
  type from the text of the function name, in the order of the source. The omitted
  \<^verbatim>\<open>ignoreCase\<close> argument is set, as the spec has function names match
  case-insensitively.
\<close>

definition exitFunctionExpression_functionType :: "string \<Rightarrow> error + ExpressionFunctionType" where
  "exitFunctionExpression_functionType functionName =
     (if IsEqual functionName ''COALESCE'' True \<or> IsEqual functionName ''ISNULL'' True then Inr Coalesce
      else if IsEqual functionName ''CONVERT'' True then Inr Convert
      else if IsEqual functionName ''IIF'' True then Inr IIf
      else if IsEqual functionName ''ISREGEXMATCH'' True then Inr IsRegExMatch
      else if IsEqual functionName ''LEN'' True then Inr Len
      else if IsEqual functionName ''REGEXVAL'' True then Inr RegExVal
      else if StartsWith functionName ''SUBSTR'' True then Inr SubString
      else if IsEqual functionName ''TRIM'' True then Inr Trim
      else Inl (FilterExpressionParserException (''Unexpected function type \"'' @ functionName @ ''\"'')))"

subsection \<open>Data model: data set, table, column, row\<close>

text \<open>
  The data set classes are external collaborators of the parser; their sources are not
  at hand. They are modelled from the spec: a data set maps a table name
  (case-insensitively) to a table; a table has a name, an ordered schema of columns and an
  ordered sequence of rows; a row is a tuple of nullable cells, and each typed accessor
  returns the cell's payload, or nothing when the cell is null. Integers of every width
  and timestamps are read as mathematical integers within their range, and the three
  real-number types as rationals (their finite values).
\<close>

type_synonym guid = "128 word"

definition Empty_Guid :: guid where
  "Empty_Guid = 0"

datatype DataType =
    DataType_String | DataType_Boolean | DataType_DateTime | DataType_Single
  | DataType_Double | DataType_Decimal | DataType_Guid | DataType_Int8 | DataType_Int16
  | DataType_Int32 | DataType_Int64 | DataType_UInt8 | DataType_UInt16 | DataType_UInt32
  | DataType_UInt64

datatype Object =
    StringValue string | BooleanValue bool | DateTimeValue int | SingleValue rat
  | DoubleValue rat | DecimalValue rat | GuidValue guid | Int8Value int | Int16Value int
  | Int32Value int | Int64Value int | UInt8Value int | UInt16Value int | UInt32Value int
  | UInt64Value int

type_synonym DataRow = "Object option list"

definition Cell :: "DataRow \<Rightarrow> int \<Rightarrow> Object option" where
  \<comment> \<open>Modelled from the spec: the cell at a column index; nothing outside the row.\<close>
  "Cell row columnIndex =
     (if 0 \<le> columnIndex \<and> columnIndex < int (length row) then row ! nat columnIndex else None)"

definition ValueAsString :: "DataRow \<Rightarrow> int \<Rightarrow> string option" where
  \<comment> \<open>Modelled from the spec: the typed accessor \<^verbatim>\<open>DataRow::ValueAsString\<close>; nothing when the cell is null.\<close>
  "ValueAsString row i = (case Cell row i of Some (StringValue v) \<Rightarrow> Some v | _ \<Rightarrow> None)"

definition ValueAsBoolean :: "DataRow \<Rightarrow> int \<Rightarrow> bool option" where
  \<comment> \<open>Modelled from the spec: the typed accessor \<^verbatim>\<open>DataRow::ValueAsBoolean\<close>; nothing when the cell is null.\<close>
  "ValueAsBoolean row i = (case Cell row i of Some (BooleanValue v) \<Rightarrow> Some v | _ \<Rightarrow> None)"

definition ValueAsDateTime :: "DataRow \<Rightarrow> int \<Rightarrow> int option" where
  \<comment> \<open>Modelled from the spec: the typed accessor \<^verbatim>\<open>DataRow::ValueAsDateTime\<close>; nothing when the cell is null.\<close>
  "ValueAsDateTime row i = (case Cell row i of Some (DateTimeValue v) \<Rightarrow> Some v | _ \<Rightarrow> None)"

definition ValueAsSingle :: "DataRow \<Rightarrow> int \<Rightarrow> rat option" where
  \<comment> \<open>Modelled from the spec: the typed accessor \<^verbatim>\<open>DataRow::ValueAsSingle\<close>; nothing when the cell is null.\<close>
  "ValueAsSingle row i = (case Cell row i of Some (SingleValue v) \<Rightarrow> Some v | _ \<Rightarrow> None)"

definition ValueAsDouble :: "DataRow \<Rightarrow> int \<Rightarrow> rat option" where
  \<comment> \<open>Modelled from the spec: the typed accessor \<^verbatim>\<open>DataRow::ValueAsDouble\<close>; nothing when the cell is null.\<close>
  "ValueAsDouble row i = (case Cell row i of Some (DoubleValue v) \<Rightarrow> Some v | _ \<Rightarrow> None)"

definition ValueAsDecimal :: "DataRow \<Rightarrow> int \<Rightarrow> rat option" where
  \<comment> \<open>Modelled from the spec: the typed accessor \<^verbatim>\<open>DataRow::ValueAsDecimal\<close>; nothing when the cell is null.\<close>
  "ValueAsDecimal row i = (case Cell row i of Some (DecimalValue v) \<Rightarrow> Some v | _ \<Rightarrow> None)"

definition ValueAsGuid :: "DataRow \<Rightarrow> int \<Rightarrow> guid option" where
  \<comment> \<open>Modelled from the spec: the typed accessor \<^verbatim>\<open>DataRow::ValueAsGuid\<close>; nothing when the cell is null.\<close>
  "ValueAsGuid row i = (case Cell row i of Some (GuidValue v) \<Rightarrow> Some v | _ \<Rightarrow> None)"

definition ValueAsInt8 :: "DataRow \<Rightarrow> int \<Rightarrow> int option" where
  \<comment> \<open>Modelled from the spec: the typed accessor \<^verbatim>\<open>DataRow::ValueAsInt8\<close>; nothing when the cell is null.\<close>
  "ValueAsInt8 row i = (case Cell row i of Some (Int8Value v) \<Rightarrow> Some v | _ \<Rightarrow> None)"

definition ValueAsInt16 :: "DataRow \<Rightarrow> int \<Rightarrow> int option" where
  \<comment> \<open>Modelled from the spec: the typed accessor \<^verbatim>\<open>DataRow::ValueAsInt16\<close>; nothing when the cell is null.\<close>
  "ValueAsInt16 row i = (case Cell row i of Some (Int16Value v) \<Rightarrow> Some v | _ \<Rightarrow> None)"

definition ValueAsInt32 :: "DataRow \<Rightarrow> int \<Rightarrow> int option" where
  \<comment> \<open>Modelled from the spec: the typed accessor \<^verbatim>\<open>DataRow::ValueAsInt32\<close>; nothing when the cell is null.\<close>
  "ValueAsInt32 row i = (case Cell row i of Some (Int32Value v) \<Rightarrow> Some v | _ \<Rightarrow> None)"

definition ValueAsInt64 :: "DataRow \<Rightarrow> int \<Rightarrow> int option" where
  \<comment> \<open>Modelled from the spec: the typed accessor \<^verbatim>\<open>DataRow::ValueAsInt64\<close>; nothing when the cell is null.\<close>
  "ValueAsInt64 row i = (case Cell row i of Some (Int64Value v) \<Rightarrow> Some v | _ \<Rightarrow> None)"

definition ValueAsUInt8 :: "DataRow \<Rightarrow> int \<Rightarrow> int option" where
  \<comment> \<open>Modelled from the spec: the typed accessor \<^verbatim>\<open>DataRow::ValueAsUInt8\<close>; nothing when the cell is null.\<close>
  "ValueAsUInt8 row i = (case Cell row i of Some (UInt8Value v) \<Rightarrow> Some v | _ \<Rightarrow> None)"

definition ValueAsUInt16 :: "DataRow \<Rightarrow> int \<Rightarrow> int option" where
  \<comment> \<open>Modelled from the spec: the typed accessor \<^verbatim>\<open>DataRow::ValueAsUInt16\<close>; nothing when the cell is null.\<close>
  "ValueAsUInt16 row i = (case Cell row i of Some (UInt16Value v) \<Rightarrow> Some v | _ \<Rightarrow> None)"

definition ValueAsUInt32 :: "DataRow \<Rightarrow> int \<Rightarrow> int option" where
  \<comment> \<open>Modelled from the spec: the typed accessor \<^verbatim>\<open>DataRow::ValueAsUInt32\<close>; nothing when the cell is null.\<close>
  "ValueAsUInt32 row i = (case Cell row i of Some (UInt32Value v) \<Rightarrow> Some v | _ \<Rightarrow> None)"

definition ValueAsUInt64 :: "DataRow \<Rightarrow> int \<Rightarrow> int option" where
  \<comment> \<open>Modelled from the spec: the typed accessor \<^verbatim>\<open>DataRow::ValueAsUInt64\<close>; nothing when the cell is null.\<close>
  "ValueAsUInt64 row i = (case Cell row i of Some (UInt64Value v) \<Rightarrow> Some v | _ \<Rightarrow> None)"

record DataColumn =
  DataColumn_Name :: string
  DataColumn_Index :: int
  DataColumn_Type :: DataType

text \<open>A table's row slot may hold no row: the source tests each \<^verbatim>\<open>Row(i)\<close> for null.\<close>

record DataTable =
  DataTable_Name :: string
  DataTable_Columns :: "DataColumn list"
  DataTable_Rows :: "DataRow option list"

type_synonym DataSet = "DataTable list"

definition Column :: "DataTable \<Rightarrow> string \<Rightarrow> DataColumn option" where
  \<comment> \<open>Modelled from the spec: lookup by column name, case-insensitive; null when absent.\<close>
  "Column table columnName =
     find (\<lambda>c. IsEqual (DataColumn_Name c) columnName True) (DataTable_Columns table)"

definition Table :: "DataSet \<Rightarrow> string \<Rightarrow> DataTable option" where
  \<comment> \<open>Modelled from the spec: lookup by table name, case-insensitive; null when absent.\<close>
  "Table dataSet tableName =
     find (\<lambda>t. IsEqual (DataTable_Name t) tableName True) dataSet"

record MeasurementTableIDFields =
  SignalIDFieldName :: string
  MeasurementKeyFieldName :: string
  PointTagFieldName :: string

subsection \<open>Expression values and expression trees\<close>

datatype ExpressionValueType =
    ExpressionValueType_Boolean | ExpressionValueType_Int32 | ExpressionValueType_Int64
  | ExpressionValueType_Decimal | ExpressionValueType_Single | ExpressionValueType_Double
  | ExpressionValueType_String | ExpressionValueType_DateTime | ExpressionValueType_Guid
  | ExpressionValueType_Undefined

text \<open>A value expression is a type tag with a nullable payload.\<close>

record ValueExpression =
  ValueType :: ExpressionValueType
  Value :: "Object option"

definition ValueExpression_ValueAsBoolean :: "ValueExpression \<Rightarrow> bool" where
  \<comment> \<open>Modelled from the spec: the result read as a boolean, with null read as false
     (the source's comment at the call says the same).\<close>
  "ValueExpression_ValueAsBoolean v = (case Value v of Some (BooleanValue b) \<Rightarrow> b | _ \<Rightarrow> False)"

definition EnumName :: "ExpressionValueType \<Rightarrow> string" where
  \<comment> \<open>Modelled from the spec: the name of the type tag, for the error message.\<close>
  "EnumName t = (case t of
       ExpressionValueType_Boolean \<Rightarrow> ''Boolean'' | ExpressionValueType_Int32 \<Rightarrow> ''Int32''
     | ExpressionValueType_Int64 \<Rightarrow> ''Int64'' | ExpressionValueType_Decimal \<Rightarrow> ''Decimal''
     | ExpressionValueType_Single \<Rightarrow> ''Single'' | ExpressionValueType_Double \<Rightarrow> ''Double''
     | ExpressionValueType_String \<Rightarrow> ''String'' | ExpressionValueType_DateTime \<Rightarrow> ''DateTime''
     | ExpressionValueType_Guid \<Rightarrow> ''Guid'' | ExpressionValueType_Undefined \<Rightarrow> ''Undefined'')"

text \<open>
  The expression classes and the evaluator \<^verbatim>\<open>ExpressionTree::Evaluate\<close> live in another
  source file. A tree's root is therefore kept as what the evaluator computes from it:
  a function from a row to a value or an evaluation error. The root is null until the
  listener attaches an expression.
\<close>

record ExpressionTree =
  Measurements :: DataTable
  TopLimit :: int
  OrderByTerms :: "(DataColumn \<times> bool) list"
  Root :: "(DataRow \<Rightarrow> error + ValueExpression) option"

definition ExpressionTree_Evaluate :: "ExpressionTree \<Rightarrow> DataRow \<Rightarrow> error + ValueExpression" where
  \<comment> \<open>Modelled from the spec: the evaluator reduces the root against one row.\<close>
  "ExpressionTree_Evaluate tree row =
     (case Root tree of
        None \<Rightarrow> Inl (ExpressionTreeException ''Root expression is undefined'')
      | Some f \<Rightarrow> f row)"

subsection \<open>Parse tree and parser state\<close>

text \<open>
  The lexer and the grammar are generated code. The listener sees their result, the
  statement contexts, in source order. A GUID literal is kept as the value that
  \<^verbatim>\<open>ParseGuidLiteral\<close> returns for its text, a \<^verbatim>\<open>TOP\<close> limit as the integer that
  \<^verbatim>\<open>stoi\<close> returns, an ordering term as its column name with whether \<^verbatim>\<open>K_DESC\<close> is
  present. The listener methods for the sub-expressions of a \<^verbatim>\<open>WHERE\<close> clause either
  raise an error or leave the lowered expression as the root of the active tree; the
  context carries that outcome.
\<close>

datatype IdentifierStatementContext =
    GUID_LITERAL guid
  | MEASUREMENT_KEY_LITERAL string
  | POINT_TAG_LITERAL string

record FilterStatementContext =
  tableName :: string
  topLimit :: "int option"
  orderingTerm :: "(string \<times> bool) list"
  expression :: "error + (DataRow \<Rightarrow> error + ValueExpression)"

datatype StatementContext =
    FilterStatement FilterStatementContext
  | IdentifierStatement IdentifierStatementContext

record FilterExpressionParser =
  m_parseTree :: "StatementContext list"
  m_dataSet :: "DataSet option"
  m_trackFilteredSignalIDs :: bool
  m_trackFilteredRows :: bool
  m_primaryMeasurementTableName :: string
  m_measurementTableIDFields :: "string \<Rightarrow> MeasurementTableIDFields option"
  m_filteredSignalIDSet :: "guid set"
  m_filteredSignalIDs :: "guid list"
  m_filteredRows :: "DataRow list"
  m_expressionTrees :: "ExpressionTree list"

definition GetMeasurementTableIDFields ::
  "FilterExpressionParser \<Rightarrow> string \<Rightarrow> MeasurementTableIDFields option" where
  "GetMeasurementTableIDFields p measurementTableName =
     m_measurementTableIDFields p measurementTableName"

text \<open>
  The constructor: no data set, signal IDs tracked, rows not tracked, the primary table
  \<^verbatim>\<open>ActiveMeasurements\<close> with the ID fields \<^verbatim>\<open>SignalID\<close>, \<^verbatim>\<open>ID\<close> and \<^verbatim>\<open>PointTag\<close>.
  The argument is the parse tree of the filter expression text.
\<close>

definition NewFilterExpressionParser :: "StatementContext list \<Rightarrow> FilterExpressionParser" where
  "NewFilterExpressionParser parseTree =
     \<lparr>m_parseTree = parseTree,
      m_dataSet = None,
      m_trackFilteredSignalIDs = True,
      m_trackFilteredRows = False,
      m_primaryMeasurementTableName = ''ActiveMeasurements'',
      m_measurementTableIDFields =
        (\<lambda>name. if name = ''ActiveMeasurements''
                then Some \<lparr>SignalIDFieldName = ''SignalID'', MeasurementKeyFieldName = ''ID'',
                           PointTagFieldName = ''PointTag''\<rparr>
                else None),
      m_filteredSignalIDSet = {},
      m_filteredSignalIDs = [],
      m_filteredRows = [],
      m_expressionTrees = []\<rparr>"

definition SetDataSet :: "FilterExpressionParser \<Rightarrow> DataSet option \<Rightarrow> FilterExpressionParser" where
  "SetDataSet p dataSet = p\<lparr>m_dataSet := dataSet\<rparr>"

definition ParsePointTagLiteral :: "string \<Rightarrow> string" where
  \<comment> \<open>The grammar has a tag that starts with a double quote also end with one.\<close>
  "ParsePointTagLiteral pointTagLiteral =
     (case pointTagLiteral of
        [] \<Rightarrow> []
      | c # cs \<Rightarrow> if c = CHR 0x22 then butlast cs else pointTagLiteral)"

subsection \<open>Identifier statements\<close>

text \<open>
  The loop of \<^verbatim>\<open>MapMeasurement\<close> over the rows of the table. The only \<^verbatim>\<open>return\<close>
  inside the loop is in the branch that has tracked a new signal ID.
\<close>

fun MapMeasurement_rows ::
  "int \<Rightarrow> int \<Rightarrow> string \<Rightarrow> DataRow option list \<Rightarrow> FilterExpressionParser \<Rightarrow> FilterExpressionParser" where
  "MapMeasurement_rows signalIDColumnIndex columnIndex mappingValue [] p = p"
| "MapMeasurement_rows signalIDColumnIndex columnIndex mappingValue (row # rows) p =
     (case row of
        None \<Rightarrow> MapMeasurement_rows signalIDColumnIndex columnIndex mappingValue rows p
      | Some r \<Rightarrow>
          (case ValueAsString r columnIndex of
             None \<Rightarrow> MapMeasurement_rows signalIDColumnIndex columnIndex mappingValue rows p
           | Some field \<Rightarrow>
               if IsEqual mappingValue field True then
                 (if m_trackFilteredSignalIDs p then
                    (case ValueAsGuid r signalIDColumnIndex of
                       None \<Rightarrow> MapMeasurement_rows signalIDColumnIndex columnIndex mappingValue rows p
                     | Some signalID \<Rightarrow>
                         if signalID \<noteq> Empty_Guid \<and> signalID \<notin> m_filteredSignalIDSet p then
                           (let p1 = p\<lparr>m_filteredSignalIDSet := insert signalID (m_filteredSignalIDSet p),
                                       m_filteredSignalIDs := m_filteredSignalIDs p @ [signalID]\<rparr>
                            in if m_trackFilteredRows p1
                               then p1\<lparr>m_filteredRows := m_filteredRows p1 @ [r]\<rparr>
                               else p1)
                         else MapMeasurement_rows signalIDColumnIndex columnIndex mappingValue rows p)
                  else if m_trackFilteredRows p then
                    MapMeasurement_rows signalIDColumnIndex columnIndex mappingValue rows
                      (p\<lparr>m_filteredRows := m_filteredRows p @ [r]\<rparr>)
                  else MapMeasurement_rows signalIDColumnIndex columnIndex mappingValue rows p)
               else MapMeasurement_rows signalIDColumnIndex columnIndex mappingValue rows p))"

definition MapMeasurement ::
  "FilterExpressionParser \<Rightarrow> DataTable \<Rightarrow> int \<Rightarrow> string \<Rightarrow> string \<Rightarrow> FilterExpressionParser" where
  "MapMeasurement p measurements signalIDColumnIndex columnName mappingValue =
     (case Column measurements columnName of
        None \<Rightarrow> p
      | Some column \<Rightarrow>
          MapMeasurement_rows signalIDColumnIndex (DataColumn_Index column) mappingValue
            (DataTable_Rows measurements) p)"

text \<open>
  For the statements about \<^verbatim>\<open>MapMeasurement\<close>: the rows at which the branch that
  tracks signal IDs returns. Such a row has a string in the mapped column that equals the
  mapping value, and a signal ID that is present, not the empty GUID and not in the set.
\<close>

definition MapMeasurement_accepts ::
  "FilterExpressionParser \<Rightarrow> int \<Rightarrow> int \<Rightarrow> string \<Rightarrow> DataRow \<Rightarrow> bool" where
  "MapMeasurement_accepts p signalIDColumnIndex columnIndex mappingValue r =
     (case ValueAsString r columnIndex of
        None \<Rightarrow> False
      | Some field \<Rightarrow>
          IsEqual mappingValue field True
          \<and> (case ValueAsGuid r signalIDColumnIndex of
                None \<Rightarrow> False
              | Some signalID \<Rightarrow> signalID \<noteq> Empty_Guid \<and> signalID \<notin> m_filteredSignalIDSet p))"

text \<open>The row search of \<^verbatim>\<open>exitIdentifierStatement\<close> for a GUID literal when rows are tracked.\<close>

fun exitIdentifierStatement_rows ::
  "int \<Rightarrow> guid \<Rightarrow> DataRow option list \<Rightarrow> FilterExpressionParser \<Rightarrow> FilterExpressionParser" where
  "exitIdentifierStatement_rows signalIDColumnIndex signalID [] p = p"
| "exitIdentifierStatement_rows signalIDColumnIndex signalID (row # rows) p =
     (case row of
        None \<Rightarrow> exitIdentifierStatement_rows signalIDColumnIndex signalID rows p
      | Some r \<Rightarrow>
          (case ValueAsGuid r signalIDColumnIndex of
             None \<Rightarrow> exitIdentifierStatement_rows signalIDColumnIndex signalID rows p
           | Some v \<Rightarrow>
               if v = signalID then p\<lparr>m_filteredRows := m_filteredRows p @ [r]\<rparr>
               else exitIdentifierStatement_rows signalIDColumnIndex signalID rows p))"

text \<open>
  A listener method returns the error it raised, if any, with the parser as it stands
  at that moment. Reading through a null data set pointer is an error of its own.
\<close>

definition exitIdentifierStatement ::
  "FilterExpressionParser \<Rightarrow> IdentifierStatementContext \<Rightarrow> error option \<times> FilterExpressionParser" where
  "exitIdentifierStatement p context =
     (let signalID = (case context of GUID_LITERAL g \<Rightarrow> g | _ \<Rightarrow> Empty_Guid);
          p1 = (case context of
                  GUID_LITERAL g \<Rightarrow>
                    if m_trackFilteredSignalIDs p \<and> signalID \<noteq> Empty_Guid
                       \<and> signalID \<notin> m_filteredSignalIDSet p
                    then p\<lparr>m_filteredSignalIDSet := insert signalID (m_filteredSignalIDSet p),
                           m_filteredSignalIDs := m_filteredSignalIDs p @ [signalID]\<rparr>
                    else p
                | _ \<Rightarrow> p)
      in if (case context of GUID_LITERAL g \<Rightarrow> \<not> m_trackFilteredRows p1 | _ \<Rightarrow> False) then (None, p1)
         else
           (case m_dataSet p1 of
              None \<Rightarrow> (Some (NullReference ''m_dataSet''), p1)
            | Some dataSet \<Rightarrow>
           (case Table dataSet (m_primaryMeasurementTableName p1) of
              None \<Rightarrow> (None, p1)
            | Some measurements \<Rightarrow>
           (case GetMeasurementTableIDFields p1 (m_primaryMeasurementTableName p1) of
              None \<Rightarrow> (None, p1)
            | Some measurementTableIDFields \<Rightarrow>
           (case Column measurements (SignalIDFieldName measurementTableIDFields) of
              None \<Rightarrow> (None, p1)
            | Some signalIDColumn \<Rightarrow>
                (let signalIDColumnIndex = DataColumn_Index signalIDColumn
                 in if m_trackFilteredRows p1 \<and> signalID \<noteq> Empty_Guid then
                      (None, exitIdentifierStatement_rows signalIDColumnIndex signalID
                               (DataTable_Rows measurements) p1)
                    else
                      (case context of
                         MEASUREMENT_KEY_LITERAL text \<Rightarrow>
                           (None, MapMeasurement p1 measurements signalIDColumnIndex
                                    (MeasurementKeyFieldName measurementTableIDFields) text)
                       | POINT_TAG_LITERAL text \<Rightarrow>
                           (None, MapMeasurement p1 measurements signalIDColumnIndex
                                    (PointTagFieldName measurementTableIDFields)
                                    (ParsePointTagLiteral text))
                       | GUID_LITERAL g \<Rightarrow> (None, p1))))))))"

subsection \<open>Filter statements\<close>

text \<open>The loop of \<^verbatim>\<open>enterFilterStatement\<close> over the ordering terms.\<close>

fun enterFilterStatement_orderingTerms ::
  "DataTable \<Rightarrow> (string \<times> bool) list \<Rightarrow> (DataColumn \<times> bool) list
     \<Rightarrow> error option \<times> (DataColumn \<times> bool) list" where
  "enterFilterStatement_orderingTerms measurements [] terms = (None, terms)"
| "enterFilterStatement_orderingTerms measurements ((orderByColumnName, K_DESC) # rest) terms =
     (case Column measurements orderByColumnName of
        None \<Rightarrow>
          (Some (FilterExpressionParserException
                   (''Failed to find order by field \"'' @ orderByColumnName
                     @ ''\" for measurement table \"'' @ DataTable_Name measurements @ ''\"'')),
           terms)
      | Some orderByColumn \<Rightarrow>
          enterFilterStatement_orderingTerms measurements rest (terms @ [(orderByColumn, \<not> K_DESC)]))"

text \<open>
  A new tree has no limit (\<open>-1\<close>), no ordering terms and no root. The tree is appended
  to the parser's trees before the ordering terms are resolved; the active tree is the
  last one of the list.
\<close>

definition enterFilterStatement ::
  "FilterExpressionParser \<Rightarrow> FilterStatementContext \<Rightarrow> error option \<times> FilterExpressionParser" where
  "enterFilterStatement p context =
     (case m_dataSet p of
        None \<Rightarrow> (Some (NullReference ''m_dataSet''), p)
      | Some dataSet \<Rightarrow>
          (case Table dataSet (tableName context) of
             None \<Rightarrow>
               (Some (FilterExpressionParserException
                        (''Failed to find measurement table \"'' @ tableName context @ ''\"'')), p)
           | Some measurements \<Rightarrow>
               (let tree = \<lparr>Measurements = measurements,
                            TopLimit = (case topLimit context of None \<Rightarrow> - 1 | Some n \<Rightarrow> n),
                            OrderByTerms = [], Root = None\<rparr>;
                    (err, terms) = enterFilterStatement_orderingTerms measurements (orderingTerm context) []
                in (err, p\<lparr>m_expressionTrees := m_expressionTrees p @ [tree\<lparr>OrderByTerms := terms\<rparr>]\<rparr>))))"

definition AddExpr ::
  "FilterExpressionParser \<Rightarrow> (DataRow \<Rightarrow> error + ValueExpression) \<Rightarrow> FilterExpressionParser" where
  \<comment> \<open>Updates the root of the active expression tree.\<close>
  "AddExpr p expr =
     (case m_expressionTrees p of
        [] \<Rightarrow> p
      | _ \<Rightarrow> p\<lparr>m_expressionTrees :=
                butlast (m_expressionTrees p) @ [(last (m_expressionTrees p))\<lparr>Root := Some expr\<rparr>]\<rparr>)"

text \<open>The tree walker: the listener methods in the order of the statements.\<close>

fun walk :: "StatementContext list \<Rightarrow> FilterExpressionParser \<Rightarrow> error option \<times> FilterExpressionParser" where
  "walk [] p = (None, p)"
| "walk (IdentifierStatement context # rest) p =
     (case exitIdentifierStatement p context of
        (Some e, p1) \<Rightarrow> (Some e, p1)
      | (None, p1) \<Rightarrow> walk rest p1)"
| "walk (FilterStatement context # rest) p =
     (case enterFilterStatement p context of
        (Some e, p1) \<Rightarrow> (Some e, p1)
      | (None, p1) \<Rightarrow>
          (case expression context of
             Inl e \<Rightarrow> (Some e, p1)
           | Inr expr \<Rightarrow> walk rest (AddExpr p1 expr)))"

subsection \<open>The comparison of two matched rows\<close>

definition CompareValues :: "'a::linorder option \<Rightarrow> 'a option \<Rightarrow> int" where
  "CompareValues leftNullable rightNullable =
     (case (leftNullable, rightNullable) of
        (Some leftValue, Some rightValue) \<Rightarrow>
          (if leftValue < rightValue then - 1 else if leftValue > rightValue then 1 else 0)
      | (None, None) \<Rightarrow> 0
      | (Some leftValue, None) \<Rightarrow> 1
      | (None, Some rightValue) \<Rightarrow> - 1)"

definition Compare :: "string \<Rightarrow> string \<Rightarrow> int" where
  \<comment> \<open>Modelled from the spec: \<^verbatim>\<open>Compare(left, right)\<close> of the common header, the
     three-way lexicographic comparison of two strings by their bytes, with the case
     folded as for the other string helpers when \<^verbatim>\<open>ignoreCase\<close> is omitted.\<close>
  "Compare leftValue rightValue =
     (let l = map (\<lambda>c. of_char (ToUpper c) :: nat) leftValue;
          r = map (\<lambda>c. of_char (ToUpper c) :: nat) rightValue
      in if l < r then - 1 else if r < l then 1 else 0)"

text \<open>
  One pass of the loop in the comparison lambda: the result for one order-by term. The
  operands are swapped for a descending term. The \<^verbatim>\<open>default\<close> case of the source's
  switch is not reachable: the cases cover every data type.
\<close>

definition orderByTerm_result :: "DataColumn \<times> bool \<Rightarrow> DataRow \<Rightarrow> DataRow \<Rightarrow> int" where
  "orderByTerm_result orderByTerm leftMatchedRow rightMatchedRow =
     (let orderByColumn = fst orderByTerm;
          columnIndex = DataColumn_Index orderByColumn;
          ascending = snd orderByTerm;
          leftRow = (if ascending then leftMatchedRow else rightMatchedRow);
          rightRow = (if ascending then rightMatchedRow else leftMatchedRow)
      in case DataColumn_Type orderByColumn of
           DataType_String \<Rightarrow>
             (case (ValueAsString leftRow columnIndex, ValueAsString rightRow columnIndex) of
                (Some l, Some r) \<Rightarrow> Compare l r
              | (None, None) \<Rightarrow> 0
              | (Some l, None) \<Rightarrow> 1
              | (None, Some r) \<Rightarrow> - 1)
         | DataType_Boolean \<Rightarrow>
             CompareValues (ValueAsBoolean leftRow columnIndex) (ValueAsBoolean rightRow columnIndex)
         | DataType_DateTime \<Rightarrow>
             CompareValues (ValueAsDateTime leftRow columnIndex) (ValueAsDateTime rightRow columnIndex)
         | DataType_Single \<Rightarrow>
             CompareValues (ValueAsSingle leftRow columnIndex) (ValueAsSingle rightRow columnIndex)
         | DataType_Double \<Rightarrow>
             CompareValues (ValueAsDouble leftRow columnIndex) (ValueAsDouble rightRow columnIndex)
         | DataType_Decimal \<Rightarrow>
             CompareValues (ValueAsDecimal leftRow columnIndex) (ValueAsDecimal rightRow columnIndex)
         | DataType_Guid \<Rightarrow>
             CompareValues (ValueAsGuid leftRow columnIndex) (ValueAsGuid rightRow columnIndex)
         | DataType_Int8 \<Rightarrow>
             CompareValues (ValueAsInt8 leftRow columnIndex) (ValueAsInt8 rightRow columnIndex)
         | DataType_Int16 \<Rightarrow>
             CompareValues (ValueAsInt16 leftRow columnIndex) (ValueAsInt16 rightRow columnIndex)
         | DataType_Int32 \<Rightarrow>
             CompareValues (ValueAsInt32 leftRow columnIndex) (ValueAsInt32 rightRow columnIndex)
         | DataType_Int64 \<Rightarrow>
             CompareValues (ValueAsInt64 leftRow columnIndex) (ValueAsInt64 rightRow columnIndex)
         | DataType_UInt8 \<Rightarrow>
             CompareValues (ValueAsUInt8 leftRow columnIndex) (ValueAsUInt8 rightRow columnIndex)
         | DataType_UInt16 \<Rightarrow>
             CompareValues (ValueAsUInt16 leftRow columnIndex) (ValueAsUInt16 rightRow columnIndex)
         | DataType_UInt32 \<Rightarrow>
             CompareValues (ValueAsUInt32 leftRow columnIndex) (ValueAsUInt32 rightRow columnIndex)
         | DataType_UInt64 \<Rightarrow>
             CompareValues (ValueAsUInt64 leftRow columnIndex) (ValueAsUInt64 rightRow columnIndex))"

text \<open>The comparison lambda handed to \<^verbatim>\<open>std::sort\<close>: is the left row ordered before the right one?\<close>

fun orderByLess :: "(DataColumn \<times> bool) list \<Rightarrow> DataRow \<Rightarrow> DataRow \<Rightarrow> bool" where
  "orderByLess [] leftMatchedRow rightMatchedRow = False"
| "orderByLess (orderByTerm # rest) leftMatchedRow rightMatchedRow =
     (let result = orderByTerm_result orderByTerm leftMatchedRow rightMatchedRow
      in if result < 0 then True
         else if result > 0 then False
         else orderByLess rest leftMatchedRow rightMatchedRow)"

subsection \<open>The statement executor\<close>

text \<open>
  The row loop of \<^verbatim>\<open>Evaluate\<close> for one expression tree. It runs over the row slots
  that are left, with the set of signal IDs (a member of the parser, so it keeps what
  was inserted when an error is raised) and the local vector of matched rows.
\<close>

fun Evaluate_rows ::
  "ExpressionTree \<Rightarrow> bool \<Rightarrow> int \<Rightarrow> DataRow option list \<Rightarrow> guid set \<Rightarrow> DataRow list
     \<Rightarrow> error option \<times> guid set \<times> DataRow list" where
  "Evaluate_rows expressionTree trackFilteredSignalIDs signalIDColumnIndex [] idSet matchedRows =
     (None, idSet, matchedRows)"
| "Evaluate_rows expressionTree trackFilteredSignalIDs signalIDColumnIndex (row # rows) idSet matchedRows =
     (if TopLimit expressionTree > - 1 \<and> int (length matchedRows) \<ge> TopLimit expressionTree
      then (None, idSet, matchedRows)
      else
        (case row of
           None \<Rightarrow>
             Evaluate_rows expressionTree trackFilteredSignalIDs signalIDColumnIndex rows idSet matchedRows
         | Some r \<Rightarrow>
             (case ExpressionTree_Evaluate expressionTree r of
                Inl e \<Rightarrow> (Some e, idSet, matchedRows)
              | Inr resultExpression \<Rightarrow>
                  if ValueType resultExpression \<noteq> ExpressionValueType_Boolean then
                    (Some (FilterExpressionParserException
                       (''Final expression tree evaluation did not result in a boolean value, result data type is \"''
                         @ EnumName (ValueType resultExpression) @ ''\"'')),
                     idSet, matchedRows)
                  else if ValueExpression_ValueAsBoolean resultExpression then
                    (if trackFilteredSignalIDs then
                       (case ValueAsGuid r signalIDColumnIndex of
                          None \<Rightarrow>
                            Evaluate_rows expressionTree trackFilteredSignalIDs signalIDColumnIndex
                              rows idSet matchedRows
                        | Some signalID \<Rightarrow>
                            if signalID \<noteq> Empty_Guid \<and> signalID \<notin> idSet then
                              Evaluate_rows expressionTree trackFilteredSignalIDs signalIDColumnIndex
                                rows (insert signalID idSet) (matchedRows @ [r])
                            else
                              Evaluate_rows expressionTree trackFilteredSignalIDs signalIDColumnIndex
                                rows idSet matchedRows)
                     else
                       Evaluate_rows expressionTree trackFilteredSignalIDs signalIDColumnIndex
                         rows idSet (matchedRows @ [r]))
                  else
                    Evaluate_rows expressionTree trackFilteredSignalIDs signalIDColumnIndex
                      rows idSet matchedRows)))"

text \<open>The last loop of the body: the matched rows go to the accumulators, in their final order.\<close>

fun Evaluate_append :: "int \<Rightarrow> DataRow list \<Rightarrow> FilterExpressionParser \<Rightarrow> FilterExpressionParser" where
  "Evaluate_append signalIDColumnIndex [] p = p"
| "Evaluate_append signalIDColumnIndex (row # rows) p =
     (let p1 = (if m_trackFilteredSignalIDs p
                then p\<lparr>m_filteredSignalIDs := m_filteredSignalIDs p
                        @ [case ValueAsGuid row signalIDColumnIndex of Some g \<Rightarrow> g | None \<Rightarrow> Empty_Guid]\<rparr>
                else p);
          p2 = (if m_trackFilteredRows p1 then p1\<lparr>m_filteredRows := m_filteredRows p1 @ [row]\<rparr> else p1)
      in Evaluate_append signalIDColumnIndex rows p2)"

text \<open>
  The head of the loop body: with signal IDs tracked, the signal ID column of the tree's
  table is resolved through the ID fields record of the table; otherwise the index stays
  \<open>-1\<close>.
\<close>

definition Evaluate_signalIDColumnIndex :: "FilterExpressionParser \<Rightarrow> DataTable \<Rightarrow> error + int" where
  "Evaluate_signalIDColumnIndex p measurements =
     (if m_trackFilteredSignalIDs p then
        (case GetMeasurementTableIDFields p (DataTable_Name measurements) of
           None \<Rightarrow>
             Inl (FilterExpressionParserException
                    (''Failed to find ID fields record for measurement table \"''
                      @ DataTable_Name measurements @ ''\"''))
         | Some measurementTableIDFields \<Rightarrow>
             (case Column measurements (SignalIDFieldName measurementTableIDFields) of
                None \<Rightarrow>
                  Inl (FilterExpressionParserException
                         (''Failed to find signal ID field \"''
                           @ SignalIDFieldName measurementTableIDFields
                           @ ''\" for measurement table \"'' @ DataTable_Name measurements @ ''\"''))
              | Some signalIDColumn \<Rightarrow> Inr (DataColumn_Index signalIDColumn)))
      else Inr (- 1))"

text \<open>
  The body of the loop over the expression trees. \<^verbatim>\<open>std::sort\<close> belongs to the C++
  standard library, not to this program: it is the parameter \<open>std_sort\<close>, which receives
  the comparison and the vector.
\<close>

definition Evaluate_tree ::
  "((DataRow \<Rightarrow> DataRow \<Rightarrow> bool) \<Rightarrow> DataRow list \<Rightarrow> DataRow list)
     \<Rightarrow> ExpressionTree \<Rightarrow> FilterExpressionParser \<Rightarrow> error option \<times> FilterExpressionParser" where
  "Evaluate_tree std_sort expressionTree p =
     (let measurements = Measurements expressionTree
      in case Evaluate_signalIDColumnIndex p measurements of
           Inl e \<Rightarrow> (Some e, p)
         | Inr signalIDColumnIndex \<Rightarrow>
             (case Evaluate_rows expressionTree (m_trackFilteredSignalIDs p) signalIDColumnIndex
                     (DataTable_Rows measurements) (m_filteredSignalIDSet p) [] of
                (Some e, idSet, matchedRows) \<Rightarrow> (Some e, p\<lparr>m_filteredSignalIDSet := idSet\<rparr>)
              | (None, idSet, matchedRows) \<Rightarrow>
                  (let p1 = p\<lparr>m_filteredSignalIDSet := idSet\<rparr>
                   in if matchedRows = [] then (None, p1)
                      else
                        (let sortedRows =
                               (if OrderByTerms expressionTree \<noteq> []
                                then std_sort (orderByLess (OrderByTerms expressionTree)) matchedRows
                                else matchedRows)
                         in (None, Evaluate_append signalIDColumnIndex sortedRows p1)))))"

fun Evaluate_trees ::
  "((DataRow \<Rightarrow> DataRow \<Rightarrow> bool) \<Rightarrow> DataRow list \<Rightarrow> DataRow list)
     \<Rightarrow> ExpressionTree list \<Rightarrow> FilterExpressionParser \<Rightarrow> error option \<times> FilterExpressionParser" where
  "Evaluate_trees std_sort [] p = (None, p)"
| "Evaluate_trees std_sort (expressionTree # rest) p =
     (case Evaluate_tree std_sort expressionTree p of
        (Some e, p1) \<Rightarrow> (Some e, p1)
      | (None, p1) \<Rightarrow> Evaluate_trees std_sort rest p1)"

text \<open>The four \<^verbatim>\<open>clear()\<close> calls at the entry (the memo of the listener is not modelled).\<close>

definition Evaluate_clear :: "FilterExpressionParser \<Rightarrow> FilterExpressionParser" where
  "Evaluate_clear p =
     p\<lparr>m_filteredSignalIDSet := {}, m_filteredSignalIDs := [], m_filteredRows := [],
       m_expressionTrees := []\<rparr>"

definition Evaluate ::
  "((DataRow \<Rightarrow> DataRow \<Rightarrow> bool) \<Rightarrow> DataRow list \<Rightarrow> DataRow list)
     \<Rightarrow> FilterExpressionParser \<Rightarrow> error option \<times> FilterExpressionParser" where
  "Evaluate std_sort p =
     (if m_dataSet p = None then
        (Some (FilterExpressionParserException
                 ''Cannot evaluate filter expression, no dataset has been defined''), p)
      else
        (let p0 = Evaluate_clear p
         in case walk (m_parseTree p0) p0 of
              (Some e, p1) \<Rightarrow> (Some e, p1)
            | (None, p1) \<Rightarrow> Evaluate_trees std_sort (m_expressionTrees p1) p1))"



subsection \<open>Integer literals\<close>

text \<open>
  \<^verbatim>\<open>exitLiteralValue\<close> reads an integer literal with \<^verbatim>\<open>stod\<close> and compares the double
  with \<^verbatim>\<open>Int64::MaxValue\<close> and \<^verbatim>\<open>Int32::MaxValue\<close>. The lexeme is a run of digits, so
  the double is a non-negative integer: it is represented by that integer. A double has
  53 significant bits; \<open>double_of_nat\<close> is the conversion of an integer to the nearest
  double, ties to even, which is what \<^verbatim>\<open>stod\<close> does to the digits and what the
  comparison does to its integer operand.
\<close>

definition Int32_MaxValue :: int where
  "Int32_MaxValue = 2147483647"

definition Int64_MaxValue :: int where
  "Int64_MaxValue = 9223372036854775807"

fun bit_length :: "nat \<Rightarrow> nat" where
  "bit_length n = (if n = 0 then 0 else Suc (bit_length (n div 2)))"

declare bit_length.simps [simp del]

definition double_of_nat :: "nat \<Rightarrow> nat" where
  "double_of_nat n =
     (let e = bit_length n - 53;
          q = n div 2 ^ e;
          r = n mod 2 ^ e;
          half = 2 ^ e div 2
      in if e = 0 then n
         else if r > half \<or> (r = half \<and> odd q) then (q + 1) * 2 ^ e
         else q * 2 ^ e)"

definition stod :: "string \<Rightarrow> error + nat" where
  \<comment> \<open>A value beyond the largest finite double makes \<^verbatim>\<open>stod\<close> raise.\<close>
  "stod text =
     (let n = foldl (\<lambda>a c. 10 * a + (of_char c - 48)) (0::nat) text;
          d = double_of_nat n
      in if d \<ge> 2 ^ 1024 then Inl (OutOfRange ''stod'') else Inr d)"

text \<open>
  The branch for \<^verbatim>\<open>INTEGER_LITERAL\<close>. \<^verbatim>\<open>static_cast<int64_t>\<close> of a double outside the
  range of the target type is undefined behaviour; the cast to \<^verbatim>\<open>int32_t\<close> in the last
  branch is always in range.
\<close>

definition exitLiteralValue_INTEGER_LITERAL :: "string \<Rightarrow> error + ValueExpression" where
  "exitLiteralValue_INTEGER_LITERAL text =
     (case stod text of
        Inl e \<Rightarrow> Inl e
      | Inr val \<Rightarrow>
          if val > double_of_nat (nat Int64_MaxValue) then
            Inr \<lparr>ValueType = ExpressionValueType_Double, Value = Some (DoubleValue (of_nat val))\<rparr>
          else if val > double_of_nat (nat Int32_MaxValue) then
            (if int val \<le> Int64_MaxValue
             then Inr \<lparr>ValueType = ExpressionValueType_Int64, Value = Some (Int64Value (int val))\<rparr>
             else Inl (UndefinedBehaviour ''static_cast<int64_t> of a double out of range''))
          else
            Inr \<lparr>ValueType = ExpressionValueType_Int32, Value = Some (Int32Value (int val))\<rparr>)"

subsection \<open>What the standard library promises of the sort\<close>



text \<open>
  Two sorts that keep the promise, for the examples: an insertion sort that puts an
  element behind its equivalents, and one that puts it in front of them.
\<close>

fun insert_behind :: "('a \<Rightarrow> 'a \<Rightarrow> bool) \<Rightarrow> 'a \<Rightarrow> 'a list \<Rightarrow> 'a list" where
  "insert_behind before x [] = [x]"
| "insert_behind before x (y # ys) =
     (if before x y then x # y # ys else y # insert_behind before x ys)"

definition sort_behind :: "('a \<Rightarrow> 'a \<Rightarrow> bool) \<Rightarrow> 'a list \<Rightarrow> 'a list" where
  "sort_behind before xs = foldl (\<lambda>acc x. insert_behind before x acc) [] xs"

fun insert_in_front :: "('a \<Rightarrow> 'a \<Rightarrow> bool) \<Rightarrow> 'a \<Rightarrow> 'a list \<Rightarrow> 'a list" where
  "insert_in_front before x [] = [x]"
| "insert_in_front before x (y # ys) =
     (if before y x then y # insert_in_front before x ys else x # y # ys)"

definition sort_in_front :: "('a \<Rightarrow> 'a \<Rightarrow> bool) \<Rightarrow> 'a list \<Rightarrow> 'a list" where
  "sort_in_front before xs = foldl (\<lambda>acc x. insert_in_front before x acc) [] xs"

subsection \<open>Example data\<close>

text \<open>
  A table in the shape of the spec's scenarios, with the columns \<^verbatim>\<open>SignalID\<close>,
  \<^verbatim>\<open>ID\<close>, \<^verbatim>\<open>PointTag\<close> and an integer column \<^verbatim>\<open>Value\<close>, and the
  evaluators of five \<^verbatim>\<open>WHERE\<close> clauses: \<^verbatim>\<open>True\<close>, \<^verbatim>\<open>Value > 0\<close>,
  \<^verbatim>\<open>6 / Value > 1\<close> (an integer division, which fails on zero),
  \<^verbatim>\<open>IIf(Value > 1, True, 5)\<close> (a boolean on some rows, an integer on the others) and
  \<^verbatim>\<open>NULL\<close>.
\<close>

definition example_columns :: "DataColumn list" where
  "example_columns =
     [\<lparr>DataColumn_Name = ''SignalID'', DataColumn_Index = 0, DataColumn_Type = DataType_Guid\<rparr>,
      \<lparr>DataColumn_Name = ''ID'', DataColumn_Index = 1, DataColumn_Type = DataType_String\<rparr>,
      \<lparr>DataColumn_Name = ''PointTag'', DataColumn_Index = 2, DataColumn_Type = DataType_String\<rparr>,
      \<lparr>DataColumn_Name = ''Value'', DataColumn_Index = 3, DataColumn_Type = DataType_Int32\<rparr>]"

definition example_row :: "guid \<Rightarrow> string \<Rightarrow> string \<Rightarrow> int \<Rightarrow> DataRow" where
  "example_row signalID key tag val =
     [Some (GuidValue signalID), Some (StringValue key), Some (StringValue tag), Some (Int32Value val)]"

definition example_table :: "DataRow list \<Rightarrow> DataTable" where
  "example_table rows =
     \<lparr>DataTable_Name = ''ActiveMeasurements'', DataTable_Columns = example_columns,
      DataTable_Rows = map Some rows\<rparr>"

definition example_parser :: "DataRow list \<Rightarrow> StatementContext list \<Rightarrow> FilterExpressionParser" where
  "example_parser rows parseTree =
     (NewFilterExpressionParser parseTree)\<lparr>m_dataSet := Some [example_table rows]\<rparr>"

definition where_true :: "DataRow \<Rightarrow> error + ValueExpression" where
  "where_true row = Inr \<lparr>ValueType = ExpressionValueType_Boolean, Value = Some (BooleanValue True)\<rparr>"

definition where_value_positive :: "DataRow \<Rightarrow> error + ValueExpression" where
  "where_value_positive row =
     (case ValueAsInt32 row 3 of
        None \<Rightarrow> Inr \<lparr>ValueType = ExpressionValueType_Boolean, Value = None\<rparr>
      | Some n \<Rightarrow> Inr \<lparr>ValueType = ExpressionValueType_Boolean, Value = Some (BooleanValue (n > 0))\<rparr>)"

definition where_quotient :: "DataRow \<Rightarrow> error + ValueExpression" where
  "where_quotient row =
     (case ValueAsInt32 row 3 of
        None \<Rightarrow> Inr \<lparr>ValueType = ExpressionValueType_Boolean, Value = None\<rparr>
      | Some n \<Rightarrow>
          if n = 0 then Inl (ExpressionTreeException ''Division by zero'')
          else Inr \<lparr>ValueType = ExpressionValueType_Boolean, Value = Some (BooleanValue (6 div n > 1))\<rparr>)"

definition where_iif :: "DataRow \<Rightarrow> error + ValueExpression" where
  "where_iif row =
     (case ValueAsInt32 row 3 of
        None \<Rightarrow> Inr \<lparr>ValueType = ExpressionValueType_Int32, Value = Some (Int32Value 5)\<rparr>
      | Some n \<Rightarrow>
          if n > 1 then Inr \<lparr>ValueType = ExpressionValueType_Boolean, Value = Some (BooleanValue True)\<rparr>
          else Inr \<lparr>ValueType = ExpressionValueType_Int32, Value = Some (Int32Value 5)\<rparr>)"

definition where_null :: "DataRow \<Rightarrow> error + ValueExpression" where
  "where_null row = Inr \<lparr>ValueType = ExpressionValueType_Undefined, Value = None\<rparr>"

definition example_filter ::
  "int option \<Rightarrow> (DataRow \<Rightarrow> error + ValueExpression) \<Rightarrow> (string \<times> bool) list \<Rightarrow> StatementContext" where
  "example_filter limit whereClause orderBy =
     FilterStatement \<lparr>tableName = ''ActiveMeasurements'', topLimit = limit,
                      orderingTerm = orderBy, expression = Inr whereClause\<rparr>"

section \<open>Theorems\<close>

lemma ToUpper_literals [simp]:
  "map ToUpper ''COALESCE'' = ''COALESCE''"
  "map ToUpper ''ISNULL'' = ''ISNULL''"
  "map ToUpper ''CONVERT'' = ''CONVERT''"
  "map ToUpper ''IIF'' = ''IIF''"
  "map ToUpper ''ISREGEXMATCH'' = ''ISREGEXMATCH''"
  "map ToUpper ''LEN'' = ''LEN''"
  "map ToUpper ''REGEXVAL'' = ''REGEXVAL''"
  "map ToUpper ''SUBSTR'' = ''SUBSTR''"
  "map ToUpper ''TRIM'' = ''TRIM''"
  "map ToUpper ''FILTER '' = ''FILTER ''"
  by simp_all

subsection \<open>The text handed to the parser\<close>

text \<open>
  C1. The claim: a filter text that does not start with \<^verbatim>\<open>FILTER \<close> is wrapped as
  \<^verbatim>\<open>FILTER <tableName> WHERE <filterText>\<close> before it is parsed. The code at this input:
  for the table \<^verbatim>\<open>ActiveMeasurements\<close> and the text \<^verbatim>\<open>SignalType = 1\<close>, both
  \<^verbatim>\<open>GenerateExpressionTree\<close> and \<^verbatim>\<open>Select\<close> hand the parser the text
  \<^verbatim>\<open>FITLER ActiveMeasurements WHERE SignalType = 1\<close>, with the keyword misspelled,
  whichever way the prefix test treats case.
\<close>

theorem C1_wrap_misspelled:
  "GenerateExpressionTree_parserText ic ''ActiveMeasurements'' ''SignalType = 1''
     = ''FITLER ActiveMeasurements WHERE SignalType = 1''
   \<and> Select_parserText ic ''ActiveMeasurements'' ''SignalType = 1''
     = ''FITLER ActiveMeasurements WHERE SignalType = 1''
   \<and> GenerateExpressionTree_parserText ic ''ActiveMeasurements'' ''SignalType = 1''
     \<noteq> ''FILTER ActiveMeasurements WHERE SignalType = 1''
   \<and> Select_parserText ic ''ActiveMeasurements'' ''SignalType = 1''
     \<noteq> ''FILTER ActiveMeasurements WHERE SignalType = 1''"
  by (cases ic) (simp_all add: GenerateExpressionTree_parserText_def Select_parserText_def StartsWith_def)

subsection \<open>Function-name lowering\<close>

text \<open>
  C9. Function-name lowering maps, case-insensitively, both \<^verbatim>\<open>COALESCE\<close> and
  \<^verbatim>\<open>ISNULL\<close> to \<open>Coalesce\<close>, every name that starts with \<^verbatim>\<open>SUBSTR\<close> to
  \<open>SubString\<close>, each of the six remaining known names to its own function type, and
  raises a parser error that carries the name for every other name.
\<close>

theorem C9_function_name_lowering:
  "(IsEqual n ''COALESCE'' True \<or> IsEqual n ''ISNULL'' True
      \<longrightarrow> exitFunctionExpression_functionType n = Inr Coalesce)
   \<and> (StartsWith n ''SUBSTR'' True \<longrightarrow> exitFunctionExpression_functionType n = Inr SubString)
   \<and> (IsEqual n ''CONVERT'' True \<longrightarrow> exitFunctionExpression_functionType n = Inr Convert)
   \<and> (IsEqual n ''IIF'' True \<longrightarrow> exitFunctionExpression_functionType n = Inr IIf)
   \<and> (IsEqual n ''ISREGEXMATCH'' True \<longrightarrow> exitFunctionExpression_functionType n = Inr IsRegExMatch)
   \<and> (IsEqual n ''LEN'' True \<longrightarrow> exitFunctionExpression_functionType n = Inr Len)
   \<and> (IsEqual n ''REGEXVAL'' True \<longrightarrow> exitFunctionExpression_functionType n = Inr RegExVal)
   \<and> (IsEqual n ''TRIM'' True \<longrightarrow> exitFunctionExpression_functionType n = Inr Trim)
   \<and> (\<not> (IsEqual n ''COALESCE'' True \<or> IsEqual n ''ISNULL'' True \<or> StartsWith n ''SUBSTR'' True
          \<or> IsEqual n ''CONVERT'' True \<or> IsEqual n ''IIF'' True \<or> IsEqual n ''ISREGEXMATCH'' True
          \<or> IsEqual n ''LEN'' True \<or> IsEqual n ''REGEXVAL'' True \<or> IsEqual n ''TRIM'' True)
      \<longrightarrow> exitFunctionExpression_functionType n
            = Inl (FilterExpressionParserException (''Unexpected function type \"'' @ n @ ''\"'')))"
  by (auto simp add: exitFunctionExpression_functionType_def IsEqual_def StartsWith_def)

theorem C9_function_name_lowering_witness:
  "exitFunctionExpression_functionType ''IsNull'' = Inr Coalesce
   \<and> exitFunctionExpression_functionType ''Substring'' = Inr SubString
   \<and> exitFunctionExpression_functionType ''len'' = Inr Len
   \<and> exitFunctionExpression_functionType ''AVG''
       = Inl (FilterExpressionParserException ''Unexpected function type \"AVG\"'')"
proof -
  have a: "IsEqual ''IsNull'' ''ISNULL'' True" by (simp add: IsEqual_def)
  have b: "StartsWith ''Substring'' ''SUBSTR'' True" by (simp add: StartsWith_def)
  have c: "IsEqual ''len'' ''LEN'' True" by (simp add: IsEqual_def)
  have d: "\<not> (IsEqual ''AVG'' ''COALESCE'' True \<or> IsEqual ''AVG'' ''ISNULL'' True \<or> StartsWith ''AVG'' ''SUBSTR'' True
          \<or> IsEqual ''AVG'' ''CONVERT'' True \<or> IsEqual ''AVG'' ''IIF'' True \<or> IsEqual ''AVG'' ''ISREGEXMATCH'' True
          \<or> IsEqual ''AVG'' ''LEN'' True \<or> IsEqual ''AVG'' ''REGEXVAL'' True \<or> IsEqual ''AVG'' ''TRIM'' True)"
    by (simp add: IsEqual_def StartsWith_def)
  from a have 1: "exitFunctionExpression_functionType ''IsNull'' = Inr Coalesce"
    using C9_function_name_lowering [of "''IsNull''"] by blast
  from b have 2: "exitFunctionExpression_functionType ''Substring'' = Inr SubString"
    using C9_function_name_lowering [of "''Substring''"] by blast
  from c have 3: "exitFunctionExpression_functionType ''len'' = Inr Len"
    using C9_function_name_lowering [of "''len''"] by blast
  from d have 4: "exitFunctionExpression_functionType ''AVG''
       = Inl (FilterExpressionParserException (''Unexpected function type \"'' @ ''AVG'' @ ''\"''))"
    using C9_function_name_lowering [of "''AVG''"] by blast
  from 1 2 3 4 show ?thesis by simp
qed

subsection \<open>Integer literals\<close>

lemma bit_length_0: "bit_length 0 = 0"
  by (simp add: bit_length.simps)

lemma bit_length_1: "bit_length (Suc 0) = Suc 0" "bit_length 1 = Suc 0"
  by (subst bit_length.simps, simp add: bit_length_0)+

lemma bit_length_numeral:
  "bit_length (numeral (Num.Bit0 n)) = Suc (bit_length (numeral n))"
  "bit_length (numeral (Num.Bit1 n)) = Suc (bit_length (numeral n))"
  by (subst bit_length.simps, simp)+

text \<open>
  C8. The claim: an integer literal whose parsed value exceeds \<open>Int64.Max\<close> becomes a
  \<open>Double\<close>. The code at the lexeme \<^verbatim>\<open>9223372036854775808\<close>: the parsed double is
  \<open>2\<^sup>6\<^sup>3\<close>, which exceeds \<open>Int64.Max\<close>; the comparison converts
  \<^verbatim>\<open>Int64::MaxValue\<close> to the double \<open>2\<^sup>6\<^sup>3\<close> as well, so the test is false, the
  \<open>Int64\<close> branch is taken and the double is cast to a 64-bit integer that cannot
  hold it.
\<close>

theorem C8_literal_at_int64_bound:
  "stod ''9223372036854775808'' = Inr 9223372036854775808
   \<and> int 9223372036854775808 > Int64_MaxValue
   \<and> double_of_nat (nat Int64_MaxValue) = 9223372036854775808
   \<and> exitLiteralValue_INTEGER_LITERAL ''9223372036854775808''
       = Inl (UndefinedBehaviour ''static_cast<int64_t> of a double out of range'')"
  by (simp add: bit_length_0 bit_length_1 bit_length_numeral double_of_nat_def Let_def stod_def
      exitLiteralValue_INTEGER_LITERAL_def Int64_MaxValue_def Int32_MaxValue_def)

subsection \<open>Evaluate: the entry\<close>

lemmas example_defs = example_parser_def example_table_def example_columns_def example_row_def
  NewFilterExpressionParser_def example_filter_def where_true_def where_value_positive_def
  where_quotient_def where_iif_def where_null_def SetDataSet_def

lemmas eval_defs = Evaluate_def Evaluate_clear_def Evaluate_tree_def Evaluate_signalIDColumnIndex_def enterFilterStatement_def AddExpr_def
  exitIdentifierStatement_def MapMeasurement_def GetMeasurementTableIDFields_def
  Table_def Column_def IsEqual_def Cell_def ValueAsGuid_def ValueAsString_def ValueAsInt32_def
  ExpressionTree_Evaluate_def ValueExpression_ValueAsBoolean_def Empty_Guid_def
  orderByTerm_result_def CompareValues_def sort_behind_def sort_in_front_def EnumName_def Let_def

text \<open>
  C7, as stated, fails: a call without a data set raises its error before anything is
  cleared. After a successful call that tracked the signal ID 5, the data set is taken
  away; the next call fails and the signal ID is still there.
\<close>

theorem C7_not_cleared_without_dataset:
  "fst (Evaluate sort_behind
          (SetDataSet (snd (Evaluate sort_behind (example_parser [] [IdentifierStatement (GUID_LITERAL 5)]))) None))
     = Some (FilterExpressionParserException
               ''Cannot evaluate filter expression, no dataset has been defined'')
   \<and> m_filteredSignalIDs
        (snd (Evaluate sort_behind
          (SetDataSet (snd (Evaluate sort_behind (example_parser [] [IdentifierStatement (GUID_LITERAL 5)]))) None)))
     = [5]"
  by (simp add: example_defs eval_defs)

text \<open>
  C7, amended. A call to \<open>Evaluate\<close> on a parser without a data set fails with an
  error and leaves the parser as it was. A call on a parser with a data set clears the
  three result accumulators on entry: its outcome does not depend on what they held, and
  with nothing to parse they are empty afterwards.
\<close>

theorem C7_evaluate_clears_or_fails:
  "(m_dataSet p = None \<longrightarrow>
      Evaluate std_sort p
        = (Some (FilterExpressionParserException
                   ''Cannot evaluate filter expression, no dataset has been defined''), p))
   \<and> (m_dataSet p \<noteq> None \<longrightarrow>
      Evaluate std_sort (p\<lparr>m_filteredSignalIDSet := idSet, m_filteredSignalIDs := ids,
                           m_filteredRows := rows\<rparr>)
        = Evaluate std_sort (p\<lparr>m_filteredSignalIDSet := {}, m_filteredSignalIDs := [],
                           m_filteredRows := []\<rparr>))
   \<and> (m_dataSet p \<noteq> None \<and> m_parseTree p = [] \<longrightarrow>
      Evaluate std_sort p
        = (None, p\<lparr>m_filteredSignalIDSet := {}, m_filteredSignalIDs := [], m_filteredRows := [],
                    m_expressionTrees := []\<rparr>))"
  by (simp add: Evaluate_def Evaluate_clear_def)

theorem C7_evaluate_clears_or_fails_witness:
  "Evaluate sort_behind (NewFilterExpressionParser [])
     = (Some (FilterExpressionParserException
                ''Cannot evaluate filter expression, no dataset has been defined''),
        NewFilterExpressionParser [])
   \<and> Evaluate sort_behind
        ((example_parser [] [IdentifierStatement (GUID_LITERAL 5)])
           \<lparr>m_filteredSignalIDSet := {1}, m_filteredSignalIDs := [1], m_filteredRows := [[]]\<rparr>)
     = Evaluate sort_behind
        ((example_parser [] [IdentifierStatement (GUID_LITERAL 5)])
           \<lparr>m_filteredSignalIDSet := {}, m_filteredSignalIDs := [], m_filteredRows := []\<rparr>)
   \<and> m_filteredSignalIDs (snd (Evaluate sort_behind
        ((example_parser [] [])
           \<lparr>m_filteredSignalIDSet := {1}, m_filteredSignalIDs := [1], m_filteredRows := [[]]\<rparr>))) = []"
proof -
  have a: "m_dataSet (NewFilterExpressionParser []) = None"
    by (simp add: NewFilterExpressionParser_def)
  have b: "m_dataSet (example_parser [] [IdentifierStatement (GUID_LITERAL 5)]) \<noteq> None"
    by (simp add: example_defs)
  have c: "m_dataSet ((example_parser [] [])
           \<lparr>m_filteredSignalIDSet := {1}, m_filteredSignalIDs := [1], m_filteredRows := [[]]\<rparr>) \<noteq> None
        \<and> m_parseTree ((example_parser [] [])
           \<lparr>m_filteredSignalIDSet := {1}, m_filteredSignalIDs := [1], m_filteredRows := [[]]\<rparr>) = []"
    by (simp add: example_defs)
  from a b c show ?thesis
    using C7_evaluate_clears_or_fails
        [where p = "NewFilterExpressionParser []" and std_sort = sort_behind]
      C7_evaluate_clears_or_fails
        [where p = "example_parser [] [IdentifierStatement (GUID_LITERAL 5)]"
           and std_sort = sort_behind and idSet = "{1}" and ids = "[1]" and rows = "[[]]"]
      C7_evaluate_clears_or_fails
        [where p = "(example_parser [] [])
           \<lparr>m_filteredSignalIDSet := {1}, m_filteredSignalIDs := [1], m_filteredRows := [[]]\<rparr>"
           and std_sort = sort_behind]
    by simp
qed

subsection \<open>Evaluate: the row loop\<close>

lemma Evaluate_rows_limit:
  "TopLimit t > - 1 \<and> int (length m) \<ge> TopLimit t \<Longrightarrow> Evaluate_rows t trk i rows S m = (None, S, m)"
  by (cases rows) simp_all

lemma Evaluate_rows_Cons:
  assumes "\<not> (TopLimit t > - 1 \<and> int (length m) \<ge> TopLimit t)"
  shows "Evaluate_rows t trk i (row # rows) S m =
        (case row of
           None \<Rightarrow> Evaluate_rows t trk i rows S m
         | Some r \<Rightarrow>
             (case ExpressionTree_Evaluate t r of
                Inl e \<Rightarrow> (Some e, S, m)
              | Inr resultExpression \<Rightarrow>
                  if ValueType resultExpression \<noteq> ExpressionValueType_Boolean then
                    (Some (FilterExpressionParserException
                       (''Final expression tree evaluation did not result in a boolean value, result data type is \"''
                         @ EnumName (ValueType resultExpression) @ ''\"'')),
                     S, m)
                  else if ValueExpression_ValueAsBoolean resultExpression then
                    (if trk then
                       (case ValueAsGuid r i of
                          None \<Rightarrow> Evaluate_rows t trk i rows S m
                        | Some signalID \<Rightarrow>
                            if signalID \<noteq> Empty_Guid \<and> signalID \<notin> S then
                              Evaluate_rows t trk i rows (insert signalID S) (m @ [r])
                            else Evaluate_rows t trk i rows S m)
                     else Evaluate_rows t trk i rows S (m @ [r]))
                  else Evaluate_rows t trk i rows S m))"
  using assms by (simp only: Evaluate_rows.simps if_False)

lemma Evaluate_rows_append:
  "Evaluate_rows t trk i (pre @ post) S m =
     (if fst (Evaluate_rows t trk i pre S m) = None
      then Evaluate_rows t trk i post (fst (snd (Evaluate_rows t trk i pre S m)))
             (snd (snd (Evaluate_rows t trk i pre S m)))
      else Evaluate_rows t trk i pre S m)"
proof (induction pre arbitrary: S m trk)
  case Nil
  show ?case by simp
next
  case (Cons row pre)
  show ?case
  proof (cases "TopLimit t > - 1 \<and> int (length m) \<ge> TopLimit t")
    case True
    then show ?thesis by (simp add: Evaluate_rows_limit)
  next
    case False
    note L = Evaluate_rows_Cons [OF False]
    show ?thesis
    proof (cases row)
      case None
      then show ?thesis by (simp only: append_Cons L option.case Cons.IH)
    next
      case r: (Some r)
      show ?thesis
      proof (cases "ExpressionTree_Evaluate t r")
        case (Inl e)
        then show ?thesis by (simp only: append_Cons L r option.case sum.case fst_conv) simp
      next
        case v: (Inr v)
        show ?thesis
        proof (cases "ValueAsGuid r i")
          case None
          then show ?thesis
            by (simp only: append_Cons L r v option.case sum.case Cons.IH) auto
        next
          case (Some g)
          then show ?thesis
            by (simp only: append_Cons L r v option.case sum.case Cons.IH) auto
        qed
      qed
    qed
  qed
qed


lemma Evaluate_rows_step:
  assumes "\<not> (TopLimit t > - 1 \<and> int (length m) \<ge> TopLimit t)"
    and "ExpressionTree_Evaluate t r = Inr v"
  shows "Evaluate_rows t trk i (Some r # rows) S m =
     (if ValueType v \<noteq> ExpressionValueType_Boolean then
        (Some (FilterExpressionParserException
           (''Final expression tree evaluation did not result in a boolean value, result data type is \"''
             @ EnumName (ValueType v) @ ''\"'')), S, m)
      else if Value v = Some (BooleanValue True) then
        (if trk then
           (case ValueAsGuid r i of
              None \<Rightarrow> Evaluate_rows t trk i rows S m
            | Some g \<Rightarrow> if g \<noteq> Empty_Guid \<and> g \<notin> S
                        then Evaluate_rows t trk i rows (insert g S) (m @ [r])
                        else Evaluate_rows t trk i rows S m)
         else Evaluate_rows t trk i rows S (m @ [r]))
      else Evaluate_rows t trk i rows S m)"
proof -
  have b: "ValueExpression_ValueAsBoolean v = (Value v = Some (BooleanValue True))"
    by (auto simp add: ValueExpression_ValueAsBoolean_def split: option.split Object.split)
  show ?thesis
    unfolding Evaluate_rows_Cons [OF assms(1)] by (simp add: assms(2) b)
qed

lemma Evaluate_trees_append:
  "Evaluate_trees s (ts1 @ ts2) p =
     (if fst (Evaluate_trees s ts1 p) = None
      then Evaluate_trees s ts2 (snd (Evaluate_trees s ts1 p))
      else Evaluate_trees s ts1 p)"
proof (induction ts1 arbitrary: p)
  case Nil
  show ?case by simp
next
  case (Cons t ts1)
  show ?case
    by (cases "Evaluate_tree s t p") (auto simp add: Cons.IH split: option.split)
qed

lemma Evaluate_tree_error:
  assumes "Evaluate_signalIDColumnIndex p (Measurements t) = Inr i"
    and "Evaluate_rows t (m_trackFilteredSignalIDs p) i (DataTable_Rows (Measurements t))
           (m_filteredSignalIDSet p) [] = (Some e, S', m')"
  shows "Evaluate_tree s t p = (Some e, p\<lparr>m_filteredSignalIDSet := S'\<rparr>)"
  using assms by (simp add: Evaluate_tree_def)

lemma Evaluate_tree_success:
  assumes "Evaluate_signalIDColumnIndex p (Measurements t) = Inr i"
    and "Evaluate_rows t (m_trackFilteredSignalIDs p) i (DataTable_Rows (Measurements t))
           (m_filteredSignalIDSet p) [] = (None, S', m')"
  shows "Evaluate_tree s t p =
          (None, if m' = [] then p\<lparr>m_filteredSignalIDSet := S'\<rparr>
                 else Evaluate_append i
                        (if OrderByTerms t \<noteq> [] then s (orderByLess (OrderByTerms t)) m' else m')
                        (p\<lparr>m_filteredSignalIDSet := S'\<rparr>))"
  using assms by (simp add: Evaluate_tree_def)

lemma Evaluate_rows_row:
  assumes scanned: "Evaluate_rows t trk i pre S m = (None, S', m')"
    and more: "\<not> (TopLimit t > - 1 \<and> int (length m') \<ge> TopLimit t)"
    and result: "ExpressionTree_Evaluate t r = Inr v"
  shows "Evaluate_rows t trk i (pre @ Some r # post) S m =
     (if ValueType v \<noteq> ExpressionValueType_Boolean then
        (Some (FilterExpressionParserException
           (''Final expression tree evaluation did not result in a boolean value, result data type is \"''
             @ EnumName (ValueType v) @ ''\"'')), S', m')
      else if Value v = Some (BooleanValue True) then
        (if trk then
           (case ValueAsGuid r i of
              None \<Rightarrow> Evaluate_rows t trk i post S' m'
            | Some g \<Rightarrow> if g \<noteq> Empty_Guid \<and> g \<notin> S'
                        then Evaluate_rows t trk i post (insert g S') (m' @ [r])
                        else Evaluate_rows t trk i post S' m')
         else Evaluate_rows t trk i post S' (m' @ [r]))
      else Evaluate_rows t trk i post S' m')"
  by (simp only: Evaluate_rows_append [of t trk i pre] scanned fst_conv snd_conv simp_thms if_True
        Evaluate_rows_step [OF more result])

lemma Evaluate_rows_row_error:
  assumes scanned: "Evaluate_rows t trk i pre S m = (None, S', m')"
    and more: "\<not> (TopLimit t > - 1 \<and> int (length m') \<ge> TopLimit t)"
    and result: "ExpressionTree_Evaluate t r = Inl e"
  shows "Evaluate_rows t trk i (pre @ Some r # post) S m = (Some e, S', m')"
  by (simp only: Evaluate_rows_append [of t trk i pre] scanned fst_conv snd_conv simp_thms if_True
        Evaluate_rows_Cons [OF more] option.case result sum.case)

lemma Evaluate_fails:
  assumes "m_dataSet p \<noteq> None"
    and "walk (m_parseTree p) (Evaluate_clear p) = (None, p1)"
    and "m_expressionTrees p1 = ts1 @ t # ts2"
    and "Evaluate_trees s ts1 p1 = (None, p2)"
    and "Evaluate_tree s t p2 = (Some e, p3)"
  shows "Evaluate s p = (Some e, p3)"
proof -
  have c: "m_parseTree (Evaluate_clear p) = m_parseTree p"
    by (simp add: Evaluate_clear_def)
  have "Evaluate_trees s (ts1 @ t # ts2) p1 = (Some e, p3)"
    using assms(4,5) by (simp add: Evaluate_trees_append)
  then show ?thesis
    using assms(1,2,3) by (auto simp add: Evaluate_def c)
qed

lemma Evaluate_rows_unlimited:
  assumes "TopLimit t = - 1"
    and "\<forall>r. Some r \<in> set rows \<longrightarrow>
           (\<exists>v. ExpressionTree_Evaluate t r = Inr v \<and> ValueType v = ExpressionValueType_Boolean)"
  shows "Evaluate_rows t False i rows S m =
           (None, S, m @ filter (\<lambda>r. case ExpressionTree_Evaluate t r of
                                          Inl e \<Rightarrow> False
                                        | Inr v \<Rightarrow> ValueExpression_ValueAsBoolean v)
                           (map the (filter (\<lambda>x. x \<noteq> None) rows)))"
  using assms(2)
proof (induction rows arbitrary: m)
  case Nil
  show ?case by simp
next
  case (Cons row rows)
  have nl: "\<not> (TopLimit t > - 1 \<and> int (length m) \<ge> TopLimit t)"
    using assms(1) by simp
  have IH: "\<And>m. Evaluate_rows t False i rows S m =
           (None, S, m @ filter (\<lambda>r. case ExpressionTree_Evaluate t r of
                                          Inl e \<Rightarrow> False
                                        | Inr v \<Rightarrow> ValueExpression_ValueAsBoolean v)
                           (map the (filter (\<lambda>x. x \<noteq> None) rows)))"
    using Cons.IH Cons.prems by simp
  show ?case
  proof (cases row)
    case None
    then show ?thesis by (simp only: Evaluate_rows_Cons [OF nl] option.case IH) simp
  next
    case (Some r)
    with Cons.prems obtain v where v: "ExpressionTree_Evaluate t r = Inr v"
      "ValueType v = ExpressionValueType_Boolean"
      by auto
    show ?thesis
      by (simp only: Evaluate_rows_Cons [OF nl] Some option.case v sum.case IH) (simp add: v)
  qed
qed

subsection \<open>The result of the root expression\<close>

text \<open>
  C6, as stated, fails for a null: the statement \<^verbatim>\<open>FILTER ActiveMeasurements WHERE NULL\<close>
  reduces its root to a null of type \<open>Undefined\<close> on every row, and the call fails on
  the first row instead of treating it as a non-match.
\<close>

theorem C6_null_root_fails:
  "where_null (example_row 1 ''PPA:1'' ''A'' 3)
     = Inr \<lparr>ValueType = ExpressionValueType_Undefined, Value = None\<rparr>
   \<and> fst (Evaluate sort_behind
            (example_parser [example_row 1 ''PPA:1'' ''A'' 3] [example_filter None where_null []]))
     = Some (FilterExpressionParserException
         ''Final expression tree evaluation did not result in a boolean value, result data type is \"Undefined\"'')"
  by (simp add: example_defs eval_defs)

text \<open>
  C6, amended. For every row that the row loop evaluates (the rows before it were
  scanned without error and the limit is not reached), when the root reduces to a value
  \<open>v\<close>: if \<open>v\<close> has type \<open>Boolean\<close> and holds true, the row is a match (it joins
  the matched rows; with signal IDs tracked, only if its signal ID is present, not the
  empty GUID and new); if \<open>v\<close> has type \<open>Boolean\<close> and holds false or is null, the
  row is skipped without error; if \<open>v\<close> has any other type, null or not, the loop
  stops with the evaluation error and the whole call to \<open>Evaluate\<close> fails with it.
\<close>

theorem C6_root_result:
  assumes scanned: "Evaluate_rows t trk i pre S m = (None, S', m')"
    and more: "\<not> (TopLimit t > - 1 \<and> int (length m') \<ge> TopLimit t)"
    and result: "ExpressionTree_Evaluate t r = Inr v"
  shows "(ValueType v = ExpressionValueType_Boolean \<and> Value v = Some (BooleanValue True) \<longrightarrow>
            Evaluate_rows t trk i (pre @ Some r # post) S m =
              (if trk then
                 (case ValueAsGuid r i of
                    None \<Rightarrow> Evaluate_rows t trk i post S' m'
                  | Some g \<Rightarrow> if g \<noteq> Empty_Guid \<and> g \<notin> S'
                              then Evaluate_rows t trk i post (insert g S') (m' @ [r])
                              else Evaluate_rows t trk i post S' m')
               else Evaluate_rows t trk i post S' (m' @ [r])))
       \<and> (ValueType v = ExpressionValueType_Boolean \<and> Value v \<noteq> Some (BooleanValue True) \<longrightarrow>
            Evaluate_rows t trk i (pre @ Some r # post) S m = Evaluate_rows t trk i post S' m')
       \<and> (ValueType v \<noteq> ExpressionValueType_Boolean \<longrightarrow>
            Evaluate_rows t trk i (pre @ Some r # post) S m =
              (Some (FilterExpressionParserException
                 (''Final expression tree evaluation did not result in a boolean value, result data type is \"''
                   @ EnumName (ValueType v) @ ''\"'')), S', m'))
       \<and> (ValueType v \<noteq> ExpressionValueType_Boolean
            \<and> m_dataSet p \<noteq> None
            \<and> walk (m_parseTree p) (Evaluate_clear p) = (None, p1)
            \<and> m_expressionTrees p1 = ts1 @ t # ts2
            \<and> Evaluate_trees std_sort ts1 p1 = (None, p2)
            \<and> Evaluate_signalIDColumnIndex p2 (Measurements t) = Inr i
            \<and> DataTable_Rows (Measurements t) = pre @ Some r # post
            \<and> trk = m_trackFilteredSignalIDs p2 \<and> S = m_filteredSignalIDSet p2 \<and> m = [] \<longrightarrow>
            fst (Evaluate std_sort p) =
              Some (FilterExpressionParserException
                 (''Final expression tree evaluation did not result in a boolean value, result data type is \"''
                   @ EnumName (ValueType v) @ ''\"'')))"
proof (intro conjI impI)
  note row = Evaluate_rows_row [OF scanned more result, of post]
  {
    assume "ValueType v = ExpressionValueType_Boolean \<and> Value v = Some (BooleanValue True)"
    then show "Evaluate_rows t trk i (pre @ Some r # post) S m =
              (if trk then
                 (case ValueAsGuid r i of
                    None \<Rightarrow> Evaluate_rows t trk i post S' m'
                  | Some g \<Rightarrow> if g \<noteq> Empty_Guid \<and> g \<notin> S'
                              then Evaluate_rows t trk i post (insert g S') (m' @ [r])
                              else Evaluate_rows t trk i post S' m')
               else Evaluate_rows t trk i post S' (m' @ [r]))"
      by (simp only: row) simp
  next
    assume "ValueType v = ExpressionValueType_Boolean \<and> Value v \<noteq> Some (BooleanValue True)"
    then show "Evaluate_rows t trk i (pre @ Some r # post) S m = Evaluate_rows t trk i post S' m'"
      by (simp only: row) simp
  next
    assume "ValueType v \<noteq> ExpressionValueType_Boolean"
    then show "Evaluate_rows t trk i (pre @ Some r # post) S m =
              (Some (FilterExpressionParserException
                 (''Final expression tree evaluation did not result in a boolean value, result data type is \"''
                   @ EnumName (ValueType v) @ ''\"'')), S', m')"
      by (simp only: row) simp
  next
    assume a: "ValueType v \<noteq> ExpressionValueType_Boolean
            \<and> m_dataSet p \<noteq> None
            \<and> walk (m_parseTree p) (Evaluate_clear p) = (None, p1)
            \<and> m_expressionTrees p1 = ts1 @ t # ts2
            \<and> Evaluate_trees std_sort ts1 p1 = (None, p2)
            \<and> Evaluate_signalIDColumnIndex p2 (Measurements t) = Inr i
            \<and> DataTable_Rows (Measurements t) = pre @ Some r # post
            \<and> trk = m_trackFilteredSignalIDs p2 \<and> S = m_filteredSignalIDSet p2 \<and> m = []"
    let ?e = "FilterExpressionParserException
                 (''Final expression tree evaluation did not result in a boolean value, result data type is \"''
                   @ EnumName (ValueType v) @ ''\"'')"
    from a have "Evaluate_rows t (m_trackFilteredSignalIDs p2) i (DataTable_Rows (Measurements t))
           (m_filteredSignalIDSet p2) [] = (Some ?e, S', m')"
      using row by simp
    with a have "Evaluate_tree std_sort t p2 = (Some ?e, p2\<lparr>m_filteredSignalIDSet := S'\<rparr>)"
      by (simp add: Evaluate_tree_error)
    with a have "Evaluate std_sort p = (Some ?e, p2\<lparr>m_filteredSignalIDSet := S'\<rparr>)"
      by (simp add: Evaluate_fails)
    then show "fst (Evaluate std_sort p) = Some ?e" by simp
  }
qed

theorem C6_root_result_witness:
  "Evaluate_rows
     \<lparr>Measurements = example_table [], TopLimit = - 1, OrderByTerms = [], Root = Some where_value_positive\<rparr>
     False (- 1) ([Some (example_row 1 ''PPA:1'' ''A'' 3)] @ Some (example_row 2 ''PPA:2'' ''B'' 5) # []) {} []
     = (None, {}, [example_row 1 ''PPA:1'' ''A'' 3, example_row 2 ''PPA:2'' ''B'' 5])
   \<and> Evaluate_rows
     \<lparr>Measurements = example_table [], TopLimit = - 1, OrderByTerms = [], Root = Some where_value_positive\<rparr>
     False (- 1) ([Some (example_row 1 ''PPA:1'' ''A'' 3)] @ Some (example_row 2 ''PPA:2'' ''B'' 0) # []) {} []
     = (None, {}, [example_row 1 ''PPA:1'' ''A'' 3])
   \<and> fst (Evaluate sort_behind
            (example_parser [example_row 1 ''PPA:1'' ''A'' 3] [example_filter None where_null []]))
     = Some (FilterExpressionParserException
         ''Final expression tree evaluation did not result in a boolean value, result data type is \"Undefined\"'')"
proof -
  let ?A = "example_row 1 ''PPA:1'' ''A'' 3"
  let ?B = "example_row 2 ''PPA:2'' ''B'' 5"
  let ?Z = "example_row 2 ''PPA:2'' ''B'' 0"
  let ?t = "\<lparr>Measurements = example_table [], TopLimit = - 1, OrderByTerms = [],
             Root = Some where_value_positive\<rparr>"
  have scanned: "Evaluate_rows ?t False (- 1) [Some ?A] {} [] = (None, {}, [?A])"
    by (simp add: example_defs eval_defs)
  have more: "\<not> (TopLimit ?t > - 1 \<and> int (length [?A]) \<ge> TopLimit ?t)"
    by simp
  have rB: "ExpressionTree_Evaluate ?t ?B
              = Inr \<lparr>ValueType = ExpressionValueType_Boolean, Value = Some (BooleanValue True)\<rparr>"
    by (simp add: example_defs eval_defs)
  have rZ: "ExpressionTree_Evaluate ?t ?Z
              = Inr \<lparr>ValueType = ExpressionValueType_Boolean, Value = Some (BooleanValue False)\<rparr>"
    by (simp add: example_defs eval_defs)
  have 1: "Evaluate_rows ?t False (- 1) ([Some ?A] @ Some ?B # []) {} [] = (None, {}, [?A, ?B])"
    using C6_root_result [OF scanned more rB, where post = "[]"] by simp
  have 2: "Evaluate_rows ?t False (- 1) ([Some ?A] @ Some ?Z # []) {} [] = (None, {}, [?A])"
    using C6_root_result [OF scanned more rZ, where post = "[]"] by simp
  let ?p = "example_parser [?A] [example_filter None where_null []]"
  let ?n = "\<lparr>Measurements = example_table [?A], TopLimit = - 1, OrderByTerms = [],
             Root = Some where_null\<rparr>"
  let ?p1 = "(Evaluate_clear ?p)\<lparr>m_expressionTrees := [?n]\<rparr>"
  have scanned0: "Evaluate_rows ?n True 0 [] {} [] = (None, {}, [])"
    by simp
  have more0: "\<not> (TopLimit ?n > - 1 \<and> int (length ([]::DataRow list)) \<ge> TopLimit ?n)"
    by simp
  have rN: "ExpressionTree_Evaluate ?n ?A
              = Inr \<lparr>ValueType = ExpressionValueType_Undefined, Value = None\<rparr>"
    by (simp add: example_defs eval_defs)
  have ctx: "ValueType \<lparr>ValueType = ExpressionValueType_Undefined, Value = None\<rparr> \<noteq> ExpressionValueType_Boolean
            \<and> m_dataSet ?p \<noteq> None
            \<and> walk (m_parseTree ?p) (Evaluate_clear ?p) = (None, ?p1)
            \<and> m_expressionTrees ?p1 = [] @ ?n # []
            \<and> Evaluate_trees sort_behind [] ?p1 = (None, ?p1)
            \<and> Evaluate_signalIDColumnIndex ?p1 (Measurements ?n) = Inr 0
            \<and> DataTable_Rows (Measurements ?n) = [] @ Some ?A # []
            \<and> True = m_trackFilteredSignalIDs ?p1 \<and> {} = m_filteredSignalIDSet ?p1
            \<and> ([]::DataRow list) = []"
    by (simp add: example_defs eval_defs)
  have 3: "fst (Evaluate sort_behind ?p) =
              Some (FilterExpressionParserException
                 (''Final expression tree evaluation did not result in a boolean value, result data type is \"''
                   @ EnumName (ValueType \<lparr>ValueType = ExpressionValueType_Undefined, Value = None\<rparr>) @ ''\"''))"
    using C6_root_result [OF scanned0 more0 rN, where post = "[]" and p = ?p and ?p1.0 = ?p1
        and ?ts1.0 = "[]" and ?ts2.0 = "[]" and ?p2.0 = ?p1 and std_sort = sort_behind] ctx
    by blast
  from 1 2 3 show ?thesis by (simp add: EnumName_def)
qed

subsection \<open>The limit on the matched rows\<close>

text \<open>
  C4. For a tree with \<open>TopLimit \<ge> 0\<close>, once a prefix of the rows has been scanned and
  the number of matched rows has reached the limit, no further row is scanned: the loop
  returns the rows matched so far, whatever follows. The sort and the accumulators get
  exactly these rows, so the cut happens before \<^verbatim>\<open>ORDER BY\<close>. Below the limit the
  scan goes on: the next row is evaluated, and its evaluation error surfaces. With \<open>TopLimit = -1\<close>
  every row is scanned: an evaluation error at any row after a scanned prefix surfaces,
  and without signal IDs tracked the matched rows are all the rows of the table whose
  result is true.
\<close>

theorem C4_top_limit:
  "(TopLimit t \<ge> 0 \<and> Evaluate_rows t trk i pre S m = (None, S', m')
      \<and> int (length m') \<ge> TopLimit t \<longrightarrow>
      Evaluate_rows t trk i (pre @ post) S m = (None, S', m'))
   \<and> (TopLimit t \<ge> 0 \<and> Evaluate_signalIDColumnIndex p (Measurements t) = Inr i
      \<and> DataTable_Rows (Measurements t) = pre @ post
      \<and> Evaluate_rows t (m_trackFilteredSignalIDs p) i pre (m_filteredSignalIDSet p) [] = (None, S', m')
      \<and> int (length m') \<ge> TopLimit t \<longrightarrow>
      Evaluate_tree std_sort t p =
        (None, if m' = [] then p\<lparr>m_filteredSignalIDSet := S'\<rparr>
               else Evaluate_append i
                      (if OrderByTerms t \<noteq> [] then std_sort (orderByLess (OrderByTerms t)) m' else m')
                      (p\<lparr>m_filteredSignalIDSet := S'\<rparr>)))
   \<and> (TopLimit t \<ge> 0 \<and> Evaluate_rows t trk i pre S m = (None, S', m')
      \<and> int (length m') < TopLimit t \<and> ExpressionTree_Evaluate t r = Inl e \<longrightarrow>
      Evaluate_rows t trk i (pre @ Some r # post) S m = (Some e, S', m'))
   \<and> (TopLimit t = - 1 \<and> Evaluate_rows t trk i pre S m = (None, S', m')
      \<and> ExpressionTree_Evaluate t r = Inl e \<longrightarrow>
      Evaluate_rows t trk i (pre @ Some r # post) S m = (Some e, S', m'))
   \<and> (TopLimit t = - 1
      \<and> (\<forall>r. Some r \<in> set rows \<longrightarrow>
            (\<exists>v. ExpressionTree_Evaluate t r = Inr v \<and> ValueType v = ExpressionValueType_Boolean)) \<longrightarrow>
      Evaluate_rows t False i rows S m =
        (None, S, m @ filter (\<lambda>r. case ExpressionTree_Evaluate t r of
                                      Inl e \<Rightarrow> False
                                    | Inr v \<Rightarrow> ValueExpression_ValueAsBoolean v)
                        (map the (filter (\<lambda>x. x \<noteq> None) rows))))"
proof (intro conjI impI)
  {
    assume a: "TopLimit t \<ge> 0 \<and> Evaluate_rows t trk i pre S m = (None, S', m')
      \<and> int (length m') \<ge> TopLimit t"
    then have "TopLimit t > - 1 \<and> int (length m') \<ge> TopLimit t" by simp
    then have "Evaluate_rows t trk i post S' m' = (None, S', m')"
      by (rule Evaluate_rows_limit)
    with a show "Evaluate_rows t trk i (pre @ post) S m = (None, S', m')"
      by (simp add: Evaluate_rows_append)
  next
    assume a: "TopLimit t \<ge> 0 \<and> Evaluate_signalIDColumnIndex p (Measurements t) = Inr i
      \<and> DataTable_Rows (Measurements t) = pre @ post
      \<and> Evaluate_rows t (m_trackFilteredSignalIDs p) i pre (m_filteredSignalIDSet p) [] = (None, S', m')
      \<and> int (length m') \<ge> TopLimit t"
    then have "TopLimit t > - 1 \<and> int (length m') \<ge> TopLimit t" by simp
    then have "Evaluate_rows t (m_trackFilteredSignalIDs p) i post S' m' = (None, S', m')"
      by (rule Evaluate_rows_limit)
    with a have "Evaluate_rows t (m_trackFilteredSignalIDs p) i (DataTable_Rows (Measurements t))
           (m_filteredSignalIDSet p) [] = (None, S', m')"
      by (simp add: Evaluate_rows_append)
    with a show "Evaluate_tree std_sort t p =
        (None, if m' = [] then p\<lparr>m_filteredSignalIDSet := S'\<rparr>
               else Evaluate_append i
                      (if OrderByTerms t \<noteq> [] then std_sort (orderByLess (OrderByTerms t)) m' else m')
                      (p\<lparr>m_filteredSignalIDSet := S'\<rparr>))"
      by (simp add: Evaluate_tree_success)
  next
    assume a: "TopLimit t \<ge> 0 \<and> Evaluate_rows t trk i pre S m = (None, S', m')
      \<and> int (length m') < TopLimit t \<and> ExpressionTree_Evaluate t r = Inl e"
    then have "\<not> (TopLimit t > - 1 \<and> int (length m') \<ge> TopLimit t)" by simp
    with a show "Evaluate_rows t trk i (pre @ Some r # post) S m = (Some e, S', m')"
      by (simp add: Evaluate_rows_row_error)
  next
    assume a: "TopLimit t = - 1 \<and> Evaluate_rows t trk i pre S m = (None, S', m')
      \<and> ExpressionTree_Evaluate t r = Inl e"
    then have "\<not> (TopLimit t > - 1 \<and> int (length m') \<ge> TopLimit t)" by simp
    with a show "Evaluate_rows t trk i (pre @ Some r # post) S m = (Some e, S', m')"
      by (simp add: Evaluate_rows_row_error)
  next
    assume "TopLimit t = - 1
      \<and> (\<forall>r. Some r \<in> set rows \<longrightarrow>
            (\<exists>v. ExpressionTree_Evaluate t r = Inr v \<and> ValueType v = ExpressionValueType_Boolean))"
    then show "Evaluate_rows t False i rows S m =
        (None, S, m @ filter (\<lambda>r. case ExpressionTree_Evaluate t r of
                                      Inl e \<Rightarrow> False
                                    | Inr v \<Rightarrow> ValueExpression_ValueAsBoolean v)
                        (map the (filter (\<lambda>x. x \<noteq> None) rows)))"
      using Evaluate_rows_unlimited by blast
  }
qed

theorem C4_top_limit_witness:
  "Evaluate_rows
     \<lparr>Measurements = example_table [example_row 1 ''PPA:1'' ''A'' 3, example_row 2 ''PPA:2'' ''B'' 1,
                                      example_row 3 ''PPA:3'' ''C'' 2],
      TopLimit = 2,
      OrderByTerms = [(\<lparr>DataColumn_Name = ''Value'', DataColumn_Index = 3, DataColumn_Type = DataType_Int32\<rparr>, True)],
      Root = Some where_quotient\<rparr>
     True 0
     ([Some (example_row 1 ''PPA:1'' ''A'' 3), Some (example_row 2 ''PPA:2'' ''B'' 1)]
        @ [Some (example_row 3 ''PPA:3'' ''C'' 0)]) {} []
     = (None, {2, 1}, [example_row 1 ''PPA:1'' ''A'' 3, example_row 2 ''PPA:2'' ''B'' 1])
   \<and> m_filteredSignalIDs (snd (Evaluate_tree sort_behind
        \<lparr>Measurements = example_table [example_row 1 ''PPA:1'' ''A'' 3, example_row 2 ''PPA:2'' ''B'' 1,
                                      example_row 3 ''PPA:3'' ''C'' 2],
         TopLimit = 2,
         OrderByTerms = [(\<lparr>DataColumn_Name = ''Value'', DataColumn_Index = 3, DataColumn_Type = DataType_Int32\<rparr>, True)],
         Root = Some where_quotient\<rparr>
        (example_parser [] []))) = [2, 1]
   \<and> Evaluate_rows
     \<lparr>Measurements = example_table [], TopLimit = - 1, OrderByTerms = [], Root = Some where_quotient\<rparr>
     True 0
     ([Some (example_row 1 ''PPA:1'' ''A'' 3), Some (example_row 2 ''PPA:2'' ''B'' 1)]
        @ Some (example_row 3 ''PPA:3'' ''C'' 0) # []) {} []
     = (Some (ExpressionTreeException ''Division by zero''), {2, 1},
        [example_row 1 ''PPA:1'' ''A'' 3, example_row 2 ''PPA:2'' ''B'' 1])
   \<and> Evaluate_rows
     \<lparr>Measurements = example_table [], TopLimit = - 1, OrderByTerms = [], Root = Some where_value_positive\<rparr>
     False (- 1)
     [Some (example_row 1 ''PPA:1'' ''A'' 3), None, Some (example_row 2 ''PPA:2'' ''B'' 0),
      Some (example_row 3 ''PPA:3'' ''C'' 2)] {} []
     = (None, {}, [example_row 1 ''PPA:1'' ''A'' 3, example_row 3 ''PPA:3'' ''C'' 2])
   \<and> Evaluate_rows
     \<lparr>Measurements = example_table [example_row 1 ''PPA:1'' ''A'' 3, example_row 2 ''PPA:2'' ''B'' 1,
                                      example_row 3 ''PPA:3'' ''C'' 2],
      TopLimit = 2,
      OrderByTerms = [(\<lparr>DataColumn_Name = ''Value'', DataColumn_Index = 3, DataColumn_Type = DataType_Int32\<rparr>, True)],
      Root = Some where_quotient\<rparr>
     True 0
     ([Some (example_row 1 ''PPA:1'' ''A'' 3)] @ Some (example_row 3 ''PPA:3'' ''C'' 0) # []) {} []
     = (Some (ExpressionTreeException ''Division by zero''), {1}, [example_row 1 ''PPA:1'' ''A'' 3])"
proof -
  let ?A = "example_row 1 ''PPA:1'' ''A'' 3"
  let ?B = "example_row 2 ''PPA:2'' ''B'' 1"
  let ?C = "example_row 3 ''PPA:3'' ''C'' 2"
  let ?Z = "example_row 3 ''PPA:3'' ''C'' 0"
  let ?Y = "example_row 2 ''PPA:2'' ''B'' 0"
  let ?t = "\<lparr>Measurements = example_table [?A, ?B, ?C], TopLimit = 2,
      OrderByTerms = [(\<lparr>DataColumn_Name = ''Value'', DataColumn_Index = 3, DataColumn_Type = DataType_Int32\<rparr>, True)],
      Root = Some where_quotient\<rparr>"
  let ?u = "\<lparr>Measurements = example_table [], TopLimit = - 1, OrderByTerms = [], Root = Some where_quotient\<rparr>"
  let ?w = "\<lparr>Measurements = example_table [], TopLimit = - 1, OrderByTerms = [], Root = Some where_value_positive\<rparr>"
  let ?p = "example_parser [] []"
  have a: "TopLimit ?t \<ge> 0 \<and> Evaluate_rows ?t True 0 [Some ?A, Some ?B] {} [] = (None, {2, 1}, [?A, ?B])
      \<and> int (length [?A, ?B]) \<ge> TopLimit ?t"
    by (simp add: example_defs eval_defs)
  have 1: "Evaluate_rows ?t True 0 ([Some ?A, Some ?B] @ [Some ?Z]) {} [] = (None, {2, 1}, [?A, ?B])"
    using C4_top_limit [where t = ?t and trk = True and i = 0 and pre = "[Some ?A, Some ?B]"
        and S = "{}" and m = "[]" and S' = "{2, 1}" and m' = "[?A, ?B]" and post = "[Some ?Z]"] a
    by blast
  have b: "TopLimit ?t \<ge> 0 \<and> Evaluate_signalIDColumnIndex ?p (Measurements ?t) = Inr 0
      \<and> DataTable_Rows (Measurements ?t) = [Some ?A, Some ?B] @ [Some ?C]
      \<and> Evaluate_rows ?t (m_trackFilteredSignalIDs ?p) 0 [Some ?A, Some ?B] (m_filteredSignalIDSet ?p) []
           = (None, {2, 1}, [?A, ?B])
      \<and> int (length [?A, ?B]) \<ge> TopLimit ?t"
    by (simp add: example_defs eval_defs)
  have "Evaluate_tree sort_behind ?t ?p =
        (None, if [?A, ?B] = [] then ?p\<lparr>m_filteredSignalIDSet := {2, 1}\<rparr>
               else Evaluate_append 0
                      (if OrderByTerms ?t \<noteq> [] then sort_behind (orderByLess (OrderByTerms ?t)) [?A, ?B]
                       else [?A, ?B])
                      (?p\<lparr>m_filteredSignalIDSet := {2, 1}\<rparr>))"
    using C4_top_limit [where t = ?t and i = 0 and pre = "[Some ?A, Some ?B]" and p = ?p
        and S' = "{2, 1}" and m' = "[?A, ?B]" and post = "[Some ?C]" and std_sort = sort_behind] b
    by blast
  then have 2: "m_filteredSignalIDs (snd (Evaluate_tree sort_behind ?t ?p)) = [2, 1]"
    by (simp add: example_defs eval_defs)
  have c: "TopLimit ?u = - 1 \<and> Evaluate_rows ?u True 0 [Some ?A, Some ?B] {} [] = (None, {2, 1}, [?A, ?B])
      \<and> ExpressionTree_Evaluate ?u ?Z = Inl (ExpressionTreeException ''Division by zero'')"
    by (simp add: example_defs eval_defs)
  have 3: "Evaluate_rows ?u True 0 ([Some ?A, Some ?B] @ Some ?Z # []) {} []
             = (Some (ExpressionTreeException ''Division by zero''), {2, 1}, [?A, ?B])"
    using C4_top_limit [where t = ?u and trk = True and i = 0 and pre = "[Some ?A, Some ?B]"
        and S = "{}" and m = "[]" and S' = "{2, 1}" and m' = "[?A, ?B]" and post = "[]" and r = ?Z
        and e = "ExpressionTreeException ''Division by zero''"] c
    by blast
  have d: "TopLimit ?w = - 1
      \<and> (\<forall>r. Some r \<in> set [Some ?A, None, Some ?Y, Some ?C] \<longrightarrow>
            (\<exists>v. ExpressionTree_Evaluate ?w r = Inr v \<and> ValueType v = ExpressionValueType_Boolean))"
    by (auto simp add: example_defs eval_defs)
  have "Evaluate_rows ?w False (- 1) [Some ?A, None, Some ?Y, Some ?C] {} [] =
        (None, {}, [] @ filter (\<lambda>r. case ExpressionTree_Evaluate ?w r of
                                      Inl e \<Rightarrow> False
                                    | Inr v \<Rightarrow> ValueExpression_ValueAsBoolean v)
                        (map the (filter (\<lambda>x. x \<noteq> None) [Some ?A, None, Some ?Y, Some ?C])))"
    using C4_top_limit [where t = ?w and i = "- 1" and rows = "[Some ?A, None, Some ?Y, Some ?C]"
        and S = "{}" and m = "[]"] d
    by blast
  then have 4: "Evaluate_rows ?w False (- 1) [Some ?A, None, Some ?Y, Some ?C] {} [] = (None, {}, [?A, ?C])"
    by (simp add: example_defs eval_defs)
  have f: "TopLimit ?t \<ge> 0 \<and> Evaluate_rows ?t True 0 [Some ?A] {} [] = (None, {1}, [?A])
      \<and> int (length [?A]) < TopLimit ?t
      \<and> ExpressionTree_Evaluate ?t ?Z = Inl (ExpressionTreeException ''Division by zero'')"
    by (simp add: example_defs eval_defs)
  have 5: "Evaluate_rows ?t True 0 ([Some ?A] @ Some ?Z # []) {} []
             = (Some (ExpressionTreeException ''Division by zero''), {1}, [?A])"
    using C4_top_limit [where t = ?t and trk = True and i = 0 and pre = "[Some ?A]"
        and S = "{}" and m = "[]" and S' = "{1}" and m' = "[?A]" and post = "[]" and r = ?Z
        and e = "ExpressionTreeException ''Division by zero''"] f
    by blast
  from 1 2 3 4 5 show ?thesis by simp
qed

subsection \<open>Identifier statements that cannot be resolved\<close>

text \<open>
  C10, as stated, fails for a GUID literal: its signal ID is tracked before the primary
  table is looked up, so with an empty data set the statement still contributes the ID.
\<close>

theorem C10_guid_statement_contributes:
  "Table [] (m_primaryMeasurementTableName ((NewFilterExpressionParser [])\<lparr>m_dataSet := Some []\<rparr>)) = None
   \<and> exitIdentifierStatement ((NewFilterExpressionParser [])\<lparr>m_dataSet := Some []\<rparr>) (GUID_LITERAL 5)
     = (None, (NewFilterExpressionParser [])
               \<lparr>m_dataSet := Some [], m_filteredSignalIDSet := {5}, m_filteredSignalIDs := [5]\<rparr>)
   \<and> m_filteredSignalIDs (snd (Evaluate sort_behind
        ((NewFilterExpressionParser [IdentifierStatement (GUID_LITERAL 5)])\<lparr>m_dataSet := Some []\<rparr>))) = [5]"
  by (simp add: example_defs eval_defs)

text \<open>
  C10, amended. When the primary measurement table is missing from the data set, or no ID
  fields record exists for it, or its signal ID column cannot be resolved, a
  measurement-key or point-tag statement contributes nothing and raises no error; a GUID
  statement raises no error and contributes no row either, but still contributes its own
  signal ID when signal IDs are tracked and the ID is new and not the empty GUID. A
  \<^verbatim>\<open>FILTER\<close> statement whose table or order-by column cannot be resolved raises a
  parser error.
\<close>

theorem C10_identifier_statement_unresolved:
  assumes "m_dataSet p = Some dataSet"
    and "Table dataSet (m_primaryMeasurementTableName p) = None
         \<or> GetMeasurementTableIDFields p (m_primaryMeasurementTableName p) = None
         \<or> (\<exists>measurements fields.
               Table dataSet (m_primaryMeasurementTableName p) = Some measurements
               \<and> GetMeasurementTableIDFields p (m_primaryMeasurementTableName p) = Some fields
               \<and> Column measurements (SignalIDFieldName fields) = None)"
  shows "exitIdentifierStatement p (MEASUREMENT_KEY_LITERAL lexeme) = (None, p)
       \<and> exitIdentifierStatement p (POINT_TAG_LITERAL lexeme) = (None, p)
       \<and> exitIdentifierStatement p (GUID_LITERAL g) =
           (None, if m_trackFilteredSignalIDs p \<and> g \<noteq> Empty_Guid \<and> g \<notin> m_filteredSignalIDSet p
                  then p\<lparr>m_filteredSignalIDSet := insert g (m_filteredSignalIDSet p),
                         m_filteredSignalIDs := m_filteredSignalIDs p @ [g]\<rparr>
                  else p)
       \<and> (Table dataSet (tableName filterContext) = None \<longrightarrow>
            enterFilterStatement p filterContext =
              (Some (FilterExpressionParserException
                       (''Failed to find measurement table \"'' @ tableName filterContext @ ''\"'')), p))
       \<and> (\<forall>measurements. Table dataSet (tableName filterContext) = Some measurements
            \<and> orderingTerm filterContext = (name, descending) # rest \<and> Column measurements name = None \<longrightarrow>
            fst (enterFilterStatement p filterContext) =
              Some (FilterExpressionParserException
                      (''Failed to find order by field \"'' @ name
                        @ ''\" for measurement table \"'' @ DataTable_Name measurements @ ''\"'')))"
proof (intro conjI)
  show "exitIdentifierStatement p (MEASUREMENT_KEY_LITERAL lexeme) = (None, p)"
    using assms by (auto simp add: exitIdentifierStatement_def GetMeasurementTableIDFields_def Let_def split: option.split)
  show "exitIdentifierStatement p (POINT_TAG_LITERAL lexeme) = (None, p)"
    using assms by (auto simp add: exitIdentifierStatement_def GetMeasurementTableIDFields_def Let_def split: option.split)
  show "exitIdentifierStatement p (GUID_LITERAL g) =
           (None, if m_trackFilteredSignalIDs p \<and> g \<noteq> Empty_Guid \<and> g \<notin> m_filteredSignalIDSet p
                  then p\<lparr>m_filteredSignalIDSet := insert g (m_filteredSignalIDSet p),
                         m_filteredSignalIDs := m_filteredSignalIDs p @ [g]\<rparr>
                  else p)"
    using assms by (auto simp add: exitIdentifierStatement_def GetMeasurementTableIDFields_def Let_def split: option.split)
  show "Table dataSet (tableName filterContext) = None \<longrightarrow>
            enterFilterStatement p filterContext =
              (Some (FilterExpressionParserException
                       (''Failed to find measurement table \"'' @ tableName filterContext @ ''\"'')), p)"
    using assms(1) by (simp add: enterFilterStatement_def)
  show "\<forall>measurements. Table dataSet (tableName filterContext) = Some measurements
            \<and> orderingTerm filterContext = (name, descending) # rest \<and> Column measurements name = None \<longrightarrow>
            fst (enterFilterStatement p filterContext) =
              Some (FilterExpressionParserException
                      (''Failed to find order by field \"'' @ name
                        @ ''\" for measurement table \"'' @ DataTable_Name measurements @ ''\"''))"
    using assms(1) by (simp add: enterFilterStatement_def)
qed

theorem C10_identifier_statement_unresolved_witness:
  "exitIdentifierStatement ((NewFilterExpressionParser [])\<lparr>m_dataSet := Some []\<rparr>)
       (MEASUREMENT_KEY_LITERAL ''PPA:1'')
     = (None, (NewFilterExpressionParser [])\<lparr>m_dataSet := Some []\<rparr>)
   \<and> enterFilterStatement ((NewFilterExpressionParser [])\<lparr>m_dataSet := Some []\<rparr>)
       \<lparr>tableName = ''ActiveMeasurements'', topLimit = None, orderingTerm = [],
        expression = Inr where_true\<rparr>
     = (Some (FilterExpressionParserException ''Failed to find measurement table \"ActiveMeasurements\"''),
        (NewFilterExpressionParser [])\<lparr>m_dataSet := Some []\<rparr>)
   \<and> exitIdentifierStatement
       ((example_parser [example_row 1 ''PPA:1'' ''A'' 3] [])\<lparr>m_measurementTableIDFields := (\<lambda>n. None)\<rparr>)
       (POINT_TAG_LITERAL ''\"A\"'')
     = (None, (example_parser [example_row 1 ''PPA:1'' ''A'' 3] [])\<lparr>m_measurementTableIDFields := (\<lambda>n. None)\<rparr>)
   \<and> exitIdentifierStatement
       ((NewFilterExpressionParser [])
          \<lparr>m_dataSet := Some [\<lparr>DataTable_Name = ''ActiveMeasurements'', DataTable_Columns = [],
                                 DataTable_Rows = []\<rparr>], m_trackFilteredRows := True\<rparr>)
       (GUID_LITERAL 5)
     = (None, (NewFilterExpressionParser [])
          \<lparr>m_dataSet := Some [\<lparr>DataTable_Name = ''ActiveMeasurements'', DataTable_Columns = [],
                                 DataTable_Rows = []\<rparr>], m_trackFilteredRows := True,
           m_filteredSignalIDSet := {5}, m_filteredSignalIDs := [5]\<rparr>)
   \<and> fst (enterFilterStatement
       ((NewFilterExpressionParser [])
          \<lparr>m_dataSet := Some [\<lparr>DataTable_Name = ''ActiveMeasurements'', DataTable_Columns = [],
                                 DataTable_Rows = []\<rparr>], m_trackFilteredRows := True\<rparr>)
       \<lparr>tableName = ''ActiveMeasurements'', topLimit = None, orderingTerm = [(''Nope'', False)],
        expression = Inr where_true\<rparr>)
     = Some (FilterExpressionParserException
         ''Failed to find order by field \"Nope\" for measurement table \"ActiveMeasurements\"'')"
proof -
  let ?p1 = "(NewFilterExpressionParser [])\<lparr>m_dataSet := Some []\<rparr>"
  let ?p2 = "(example_parser [example_row 1 ''PPA:1'' ''A'' 3] [])\<lparr>m_measurementTableIDFields := (\<lambda>n. None)\<rparr>"
  let ?tb = "\<lparr>DataTable_Name = ''ActiveMeasurements'', DataTable_Columns = [], DataTable_Rows = []\<rparr>"
  let ?p3 = "(NewFilterExpressionParser [])\<lparr>m_dataSet := Some [?tb], m_trackFilteredRows := True\<rparr>"
  let ?c1 = "\<lparr>tableName = ''ActiveMeasurements'', topLimit = None, orderingTerm = [],
        expression = Inr where_true\<rparr>"
  let ?c3 = "\<lparr>tableName = ''ActiveMeasurements'', topLimit = None, orderingTerm = [(''Nope'', False)],
        expression = Inr where_true\<rparr>"
  have a1: "m_dataSet ?p1 = Some []" by (simp add: example_defs)
  have b1: "Table [] (m_primaryMeasurementTableName ?p1) = None
         \<or> GetMeasurementTableIDFields ?p1 (m_primaryMeasurementTableName ?p1) = None
         \<or> (\<exists>measurements fields.
               Table [] (m_primaryMeasurementTableName ?p1) = Some measurements
               \<and> GetMeasurementTableIDFields ?p1 (m_primaryMeasurementTableName ?p1) = Some fields
               \<and> Column measurements (SignalIDFieldName fields) = None)"
    by (simp add: example_defs Table_def)
  have a2: "m_dataSet ?p2 = Some [example_table [example_row 1 ''PPA:1'' ''A'' 3]]"
    by (simp add: example_defs)
  have b2: "Table [example_table [example_row 1 ''PPA:1'' ''A'' 3]] (m_primaryMeasurementTableName ?p2) = None
         \<or> GetMeasurementTableIDFields ?p2 (m_primaryMeasurementTableName ?p2) = None
         \<or> (\<exists>measurements fields.
               Table [example_table [example_row 1 ''PPA:1'' ''A'' 3]] (m_primaryMeasurementTableName ?p2) = Some measurements
               \<and> GetMeasurementTableIDFields ?p2 (m_primaryMeasurementTableName ?p2) = Some fields
               \<and> Column measurements (SignalIDFieldName fields) = None)"
    by (simp add: example_defs GetMeasurementTableIDFields_def)
  have a3: "m_dataSet ?p3 = Some [?tb]" by (simp add: example_defs)
  have b3: "Table [?tb] (m_primaryMeasurementTableName ?p3) = None
         \<or> GetMeasurementTableIDFields ?p3 (m_primaryMeasurementTableName ?p3) = None
         \<or> (\<exists>measurements fields.
               Table [?tb] (m_primaryMeasurementTableName ?p3) = Some measurements
               \<and> GetMeasurementTableIDFields ?p3 (m_primaryMeasurementTableName ?p3) = Some fields
               \<and> Column measurements (SignalIDFieldName fields) = None)"
    by (simp add: example_defs GetMeasurementTableIDFields_def Table_def Column_def IsEqual_def)
  have t1: "Table [] (tableName ?c1) = None" by (simp add: Table_def)
  have t3: "Table [?tb] (tableName ?c3) = Some ?tb \<and> orderingTerm ?c3 = (''Nope'', False) # []
            \<and> Column ?tb ''Nope'' = None"
    by (simp add: Table_def Column_def IsEqual_def)
  note w1 = C10_identifier_statement_unresolved [OF a1 b1, where lexeme = "''PPA:1''" and filterContext = ?c1]
  note w2 = C10_identifier_statement_unresolved [OF a2 b2, where lexeme = "''\"A\"''"]
  note w3 = C10_identifier_statement_unresolved [OF a3 b3, where g = 5 and filterContext = ?c3
      and name = "''Nope''" and descending = False and rest = "[]"]
  have 1: "exitIdentifierStatement ?p1 (MEASUREMENT_KEY_LITERAL ''PPA:1'') = (None, ?p1)"
    using w1 by blast
  have 2: "enterFilterStatement ?p1 ?c1 =
     (Some (FilterExpressionParserException
                       (''Failed to find measurement table \"'' @ tableName ?c1 @ ''\"'')), ?p1)"
    using w1 t1 by blast
  have 3: "exitIdentifierStatement ?p2 (POINT_TAG_LITERAL ''\"A\"'') = (None, ?p2)"
    using w2 by blast
  have 4: "exitIdentifierStatement ?p3 (GUID_LITERAL 5) =
           (None, if m_trackFilteredSignalIDs ?p3 \<and> 5 \<noteq> Empty_Guid \<and> 5 \<notin> m_filteredSignalIDSet ?p3
                  then ?p3\<lparr>m_filteredSignalIDSet := insert 5 (m_filteredSignalIDSet ?p3),
                         m_filteredSignalIDs := m_filteredSignalIDs ?p3 @ [5]\<rparr>
                  else ?p3)"
    using w3 by blast
  have 5: "fst (enterFilterStatement ?p3 ?c3) =
              Some (FilterExpressionParserException
                      (''Failed to find order by field \"'' @ ''Nope''
                        @ ''\" for measurement table \"'' @ DataTable_Name ?tb @ ''\"''))"
    using w3 t3 by blast
  from 1 2 3 4 5 show ?thesis
    by (simp add: example_defs Empty_Guid_def)
qed

subsection \<open>Identifier statements resolved by measurement key or point tag\<close>

lemma MapMeasurement_rows_skip:
  assumes "m_trackFilteredSignalIDs p"
    and "\<forall>x. Some x \<in> set pre \<longrightarrow> \<not> MapMeasurement_accepts p si ci v x"
  shows "MapMeasurement_rows si ci v (pre @ rest) p = MapMeasurement_rows si ci v rest p"
  using assms(2)
proof (induction pre)
  case Nil
  show ?case by simp
next
  case (Cons row pre)
  then have IH: "MapMeasurement_rows si ci v (pre @ rest) p = MapMeasurement_rows si ci v rest p"
    by simp
  show ?case
  proof (cases row)
    case None
    then show ?thesis by (simp add: IH)
  next
    case (Some x)
    with Cons.prems have "\<not> MapMeasurement_accepts p si ci v x" by simp
    with Some assms(1) show ?thesis
      by (auto simp add: IH MapMeasurement_accepts_def split: option.split)
  qed
qed

lemma MapMeasurement_rows_accept:
  assumes "m_trackFilteredSignalIDs p"
    and "MapMeasurement_accepts p si ci v r"
    and "ValueAsGuid r si = Some g"
  shows "MapMeasurement_rows si ci v (Some r # post) p =
           p\<lparr>m_filteredSignalIDSet := insert g (m_filteredSignalIDSet p),
             m_filteredSignalIDs := m_filteredSignalIDs p @ [g],
             m_filteredRows := (if m_trackFilteredRows p then m_filteredRows p @ [r] else m_filteredRows p)\<rparr>"
  using assms
  by (auto simp add: MapMeasurement_accepts_def Let_def split: option.splits)

lemma MapMeasurement_rows_once:
  "\<exists>gs ys. m_filteredSignalIDs (MapMeasurement_rows si ci v rows p) = m_filteredSignalIDs p @ gs
      \<and> length gs \<le> 1
      \<and> m_filteredRows (MapMeasurement_rows si ci v rows p) = m_filteredRows p @ ys
      \<and> subseq (map Some ys) rows"
proof (induction rows arbitrary: p)
  case Nil
  show ?case by simp
next
  case (Cons row rows)
  from Cons.IH [of p] obtain gs ys where
    same: "m_filteredSignalIDs (MapMeasurement_rows si ci v rows p) = m_filteredSignalIDs p @ gs"
      "length gs \<le> 1"
      "m_filteredRows (MapMeasurement_rows si ci v rows p) = m_filteredRows p @ ys"
      "subseq (map Some ys) rows"
    by blast
  then have skip: "\<exists>gs ys. m_filteredSignalIDs (MapMeasurement_rows si ci v rows p) = m_filteredSignalIDs p @ gs
      \<and> length gs \<le> 1
      \<and> m_filteredRows (MapMeasurement_rows si ci v rows p) = m_filteredRows p @ ys
      \<and> subseq (map Some ys) (row # rows)"
    using list_emb_Cons [of "(=)" "map Some ys" rows row] by blast
  show ?case
  proof (cases row)
    case None
    with skip show ?thesis by simp
  next
    case r: (Some r)
    show ?thesis
    proof (cases "ValueAsString r ci")
      case None
      with r skip show ?thesis by simp
    next
      case field: (Some field)
      show ?thesis
      proof (cases "IsEqual v field True")
        case False
        with r field skip show ?thesis by simp
      next
        case eq: True
        show ?thesis
        proof (cases "m_trackFilteredSignalIDs p")
          case trk: True
          show ?thesis
          proof (cases "ValueAsGuid r si")
            case None
            with r field eq trk skip show ?thesis by simp
          next
            case g: (Some g)
            show ?thesis
            proof (cases "g \<noteq> Empty_Guid \<and> g \<notin> m_filteredSignalIDSet p")
              case False
              with r field eq trk g skip show ?thesis by auto
            next
              case True
              have "MapMeasurement_accepts p si ci v r"
                using field eq g True by (simp add: MapMeasurement_accepts_def)
              from MapMeasurement_rows_accept [OF trk this g, of rows] r
              have res: "MapMeasurement_rows si ci v (row # rows) p =
                  p\<lparr>m_filteredSignalIDSet := insert g (m_filteredSignalIDSet p),
                    m_filteredSignalIDs := m_filteredSignalIDs p @ [g],
                    m_filteredRows := (if m_trackFilteredRows p then m_filteredRows p @ [r] else m_filteredRows p)\<rparr>"
                by simp
              show ?thesis
              proof (cases "m_trackFilteredRows p")
                case True
                have "subseq (map Some [r]) (row # rows)" using r by simp
                with res True show ?thesis
                  by (intro exI [of _ "[g]"] exI [of _ "[r]"]) simp
              next
                case False
                with res show ?thesis
                  by (intro exI [of _ "[g]"] exI [of _ "[]"]) simp
              qed
            qed
          qed
        next
          case ntrk: False
          show ?thesis
          proof (cases "m_trackFilteredRows p")
            case False
            with r field eq ntrk skip show ?thesis by simp
          next
            case True
            let ?q = "p\<lparr>m_filteredRows := m_filteredRows p @ [r]\<rparr>"
            from Cons.IH [of ?q] obtain gs' ys' where
              q: "m_filteredSignalIDs (MapMeasurement_rows si ci v rows ?q) = m_filteredSignalIDs ?q @ gs'"
                "length gs' \<le> 1"
                "m_filteredRows (MapMeasurement_rows si ci v rows ?q) = m_filteredRows ?q @ ys'"
                "subseq (map Some ys') rows"
              by blast
            have step: "MapMeasurement_rows si ci v (row # rows) p = MapMeasurement_rows si ci v rows ?q"
              using r field eq ntrk True by simp
            have "subseq (map Some (r # ys')) (row # rows)"
              using q(4) r by simp
            with q step show ?thesis
              by (intro exI [of _ gs'] exI [of _ "r # ys'"]) simp
          qed
        qed
      qed
    qed
  qed
qed

text \<open>
  C3, as stated, fails. With signal IDs tracked, the first row that matches the key
  \<^verbatim>\<open>PPA:1\<close> carries the empty GUID; the scan goes on and the second matching row
  contributes its signal ID. With only rows tracked, the scan never stops: both rows with
  the key are appended.
\<close>

theorem C3_scan_goes_past_first_match:
  "ValueAsString (example_row 0 ''PPA:1'' ''A'' 3) 1 = Some ''PPA:1''
   \<and> m_filteredSignalIDs (snd (exitIdentifierStatement
        (example_parser [example_row 0 ''PPA:1'' ''A'' 3, example_row 7 ''PPA:1'' ''B'' 4] [])
        (MEASUREMENT_KEY_LITERAL ''PPA:1''))) = [7]
   \<and> m_filteredRows (snd (exitIdentifierStatement
        ((example_parser [example_row 1 ''PPA:1'' ''A'' 3, example_row 7 ''PPA:1'' ''B'' 4] [])
           \<lparr>m_trackFilteredSignalIDs := False, m_trackFilteredRows := True\<rparr>)
        (MEASUREMENT_KEY_LITERAL ''PPA:1'')))
     = [example_row 1 ''PPA:1'' ''A'' 3, example_row 7 ''PPA:1'' ''B'' 4]"
  by (simp add: example_defs eval_defs)

text \<open>
  C3, amended. For an identifier statement resolved by a measurement key or a point tag
  against the primary table, with signal IDs tracked: the linear scan stops at the first
  row that matches and whose signal ID is present, not the empty GUID and not yet in the
  set; that row contributes one entry to each active accumulator, the rows before it and
  after it contribute nothing, and without such a row nothing is contributed. Whatever
  the mode flags, a statement appends at most one signal ID, and the rows it appends are
  rows of the table in table order, each row slot at most once.
\<close>

theorem C3_map_measurement:
  assumes "Column measurements columnName = Some column"
  shows "(m_trackFilteredSignalIDs p \<and> DataTable_Rows measurements = pre @ Some r # post
          \<and> (\<forall>x. Some x \<in> set pre \<longrightarrow>
                \<not> MapMeasurement_accepts p signalIDColumnIndex (DataColumn_Index column) mappingValue x)
          \<and> MapMeasurement_accepts p signalIDColumnIndex (DataColumn_Index column) mappingValue r
          \<and> ValueAsGuid r signalIDColumnIndex = Some g \<longrightarrow>
          MapMeasurement p measurements signalIDColumnIndex columnName mappingValue =
            p\<lparr>m_filteredSignalIDSet := insert g (m_filteredSignalIDSet p),
              m_filteredSignalIDs := m_filteredSignalIDs p @ [g],
              m_filteredRows := (if m_trackFilteredRows p then m_filteredRows p @ [r]
                                 else m_filteredRows p)\<rparr>)
       \<and> (m_trackFilteredSignalIDs p
          \<and> (\<forall>x. Some x \<in> set (DataTable_Rows measurements) \<longrightarrow>
                \<not> MapMeasurement_accepts p signalIDColumnIndex (DataColumn_Index column) mappingValue x) \<longrightarrow>
          MapMeasurement p measurements signalIDColumnIndex columnName mappingValue = p)
       \<and> (\<exists>gs ys.
            m_filteredSignalIDs (MapMeasurement p measurements signalIDColumnIndex columnName mappingValue)
              = m_filteredSignalIDs p @ gs
            \<and> length gs \<le> 1
            \<and> m_filteredRows (MapMeasurement p measurements signalIDColumnIndex columnName mappingValue)
              = m_filteredRows p @ ys
            \<and> subseq (map Some ys) (DataTable_Rows measurements))
       \<and> (m_dataSet p = Some dataSet
          \<and> Table dataSet (m_primaryMeasurementTableName p) = Some measurements
          \<and> GetMeasurementTableIDFields p (m_primaryMeasurementTableName p) = Some idFields
          \<and> Column measurements (SignalIDFieldName idFields) = Some signalIDColumn \<longrightarrow>
          exitIdentifierStatement p (MEASUREMENT_KEY_LITERAL lexeme) =
            (None, MapMeasurement p measurements (DataColumn_Index signalIDColumn)
                     (MeasurementKeyFieldName idFields) lexeme)
          \<and> exitIdentifierStatement p (POINT_TAG_LITERAL lexeme) =
            (None, MapMeasurement p measurements (DataColumn_Index signalIDColumn)
                     (PointTagFieldName idFields) (ParsePointTagLiteral lexeme)))"
proof (intro conjI impI)
  have M: "MapMeasurement p measurements signalIDColumnIndex columnName mappingValue =
      MapMeasurement_rows signalIDColumnIndex (DataColumn_Index column) mappingValue
        (DataTable_Rows measurements) p"
    using assms by (simp add: MapMeasurement_def)
  {
    assume a: "m_trackFilteredSignalIDs p \<and> DataTable_Rows measurements = pre @ Some r # post
          \<and> (\<forall>x. Some x \<in> set pre \<longrightarrow>
                \<not> MapMeasurement_accepts p signalIDColumnIndex (DataColumn_Index column) mappingValue x)
          \<and> MapMeasurement_accepts p signalIDColumnIndex (DataColumn_Index column) mappingValue r
          \<and> ValueAsGuid r signalIDColumnIndex = Some g"
    then have "MapMeasurement_rows signalIDColumnIndex (DataColumn_Index column) mappingValue
        (pre @ Some r # post) p =
      MapMeasurement_rows signalIDColumnIndex (DataColumn_Index column) mappingValue (Some r # post) p"
      by (simp add: MapMeasurement_rows_skip)
    also have "\<dots> = p\<lparr>m_filteredSignalIDSet := insert g (m_filteredSignalIDSet p),
              m_filteredSignalIDs := m_filteredSignalIDs p @ [g],
              m_filteredRows := (if m_trackFilteredRows p then m_filteredRows p @ [r]
                                 else m_filteredRows p)\<rparr>"
      using a by (simp only: MapMeasurement_rows_accept)
    finally show "MapMeasurement p measurements signalIDColumnIndex columnName mappingValue =
            p\<lparr>m_filteredSignalIDSet := insert g (m_filteredSignalIDSet p),
              m_filteredSignalIDs := m_filteredSignalIDs p @ [g],
              m_filteredRows := (if m_trackFilteredRows p then m_filteredRows p @ [r]
                                 else m_filteredRows p)\<rparr>"
      using a M by simp
  next
    assume a: "m_trackFilteredSignalIDs p
          \<and> (\<forall>x. Some x \<in> set (DataTable_Rows measurements) \<longrightarrow>
                \<not> MapMeasurement_accepts p signalIDColumnIndex (DataColumn_Index column) mappingValue x)"
    then have "MapMeasurement_rows signalIDColumnIndex (DataColumn_Index column) mappingValue
        (DataTable_Rows measurements @ []) p =
      MapMeasurement_rows signalIDColumnIndex (DataColumn_Index column) mappingValue [] p"
      by (intro MapMeasurement_rows_skip) simp_all
    then show "MapMeasurement p measurements signalIDColumnIndex columnName mappingValue = p"
      using M by simp
  next
    show "\<exists>gs ys.
            m_filteredSignalIDs (MapMeasurement p measurements signalIDColumnIndex columnName mappingValue)
              = m_filteredSignalIDs p @ gs
            \<and> length gs \<le> 1
            \<and> m_filteredRows (MapMeasurement p measurements signalIDColumnIndex columnName mappingValue)
              = m_filteredRows p @ ys
            \<and> subseq (map Some ys) (DataTable_Rows measurements)"
      unfolding M by (rule MapMeasurement_rows_once)
  next
    assume a: "m_dataSet p = Some dataSet
          \<and> Table dataSet (m_primaryMeasurementTableName p) = Some measurements
          \<and> GetMeasurementTableIDFields p (m_primaryMeasurementTableName p) = Some idFields
          \<and> Column measurements (SignalIDFieldName idFields) = Some signalIDColumn"
    then show "exitIdentifierStatement p (MEASUREMENT_KEY_LITERAL lexeme) =
            (None, MapMeasurement p measurements (DataColumn_Index signalIDColumn)
                     (MeasurementKeyFieldName idFields) lexeme)"
      by (simp add: exitIdentifierStatement_def)
    from a show "exitIdentifierStatement p (POINT_TAG_LITERAL lexeme) =
            (None, MapMeasurement p measurements (DataColumn_Index signalIDColumn)
                     (PointTagFieldName idFields) (ParsePointTagLiteral lexeme))"
      by (simp add: exitIdentifierStatement_def)
  }
qed

theorem C3_map_measurement_witness:
  "MapMeasurement
     (example_parser [example_row 0 ''PPA:1'' ''A'' 3, example_row 7 ''PPA:1'' ''B'' 4,
                      example_row 8 ''PPA:1'' ''C'' 5] [])
     (example_table [example_row 0 ''PPA:1'' ''A'' 3, example_row 7 ''PPA:1'' ''B'' 4,
                     example_row 8 ''PPA:1'' ''C'' 5])
     0 ''ID'' ''ppa:1''
   = (example_parser [example_row 0 ''PPA:1'' ''A'' 3, example_row 7 ''PPA:1'' ''B'' 4,
                      example_row 8 ''PPA:1'' ''C'' 5] [])
       \<lparr>m_filteredSignalIDSet := {7}, m_filteredSignalIDs := [7]\<rparr>
   \<and> MapMeasurement
     (example_parser [example_row 0 ''PPA:1'' ''A'' 3, example_row 7 ''PPA:1'' ''B'' 4,
                      example_row 8 ''PPA:1'' ''C'' 5] [])
     (example_table [example_row 0 ''PPA:1'' ''A'' 3, example_row 7 ''PPA:1'' ''B'' 4,
                     example_row 8 ''PPA:1'' ''C'' 5])
     0 ''ID'' ''PPA:9''
   = example_parser [example_row 0 ''PPA:1'' ''A'' 3, example_row 7 ''PPA:1'' ''B'' 4,
                      example_row 8 ''PPA:1'' ''C'' 5] []
   \<and> exitIdentifierStatement
     (example_parser [example_row 0 ''PPA:1'' ''A'' 3, example_row 7 ''PPA:1'' ''B'' 4,
                      example_row 8 ''PPA:1'' ''C'' 5] [])
     (POINT_TAG_LITERAL ''\"B\"'')
   = (None, MapMeasurement
     (example_parser [example_row 0 ''PPA:1'' ''A'' 3, example_row 7 ''PPA:1'' ''B'' 4,
                      example_row 8 ''PPA:1'' ''C'' 5] [])
     (example_table [example_row 0 ''PPA:1'' ''A'' 3, example_row 7 ''PPA:1'' ''B'' 4,
                     example_row 8 ''PPA:1'' ''C'' 5])
     0 ''PointTag'' ''B'')"
proof -
  let ?R0 = "example_row 0 ''PPA:1'' ''A'' 3"
  let ?R1 = "example_row 7 ''PPA:1'' ''B'' 4"
  let ?R2 = "example_row 8 ''PPA:1'' ''C'' 5"
  let ?p = "example_parser [?R0, ?R1, ?R2] []"
  let ?T = "example_table [?R0, ?R1, ?R2]"
  let ?c = "\<lparr>DataColumn_Name = ''ID'', DataColumn_Index = 1, DataColumn_Type = DataType_String\<rparr>"
  let ?s = "\<lparr>DataColumn_Name = ''SignalID'', DataColumn_Index = 0, DataColumn_Type = DataType_Guid\<rparr>"
  let ?f = "\<lparr>SignalIDFieldName = ''SignalID'', MeasurementKeyFieldName = ''ID'',
             PointTagFieldName = ''PointTag''\<rparr>"
  have col: "Column ?T ''ID'' = Some ?c"
    by (simp add: example_defs Column_def IsEqual_def)
  have a: "m_trackFilteredSignalIDs ?p \<and> DataTable_Rows ?T = [Some ?R0] @ Some ?R1 # [Some ?R2]
          \<and> (\<forall>x. Some x \<in> set [Some ?R0] \<longrightarrow>
                \<not> MapMeasurement_accepts ?p 0 (DataColumn_Index ?c) ''ppa:1'' x)
          \<and> MapMeasurement_accepts ?p 0 (DataColumn_Index ?c) ''ppa:1'' ?R1
          \<and> ValueAsGuid ?R1 0 = Some 7"
    by (simp add: example_defs MapMeasurement_accepts_def ValueAsString_def ValueAsGuid_def Cell_def
        IsEqual_def Empty_Guid_def)
  have b: "m_trackFilteredSignalIDs ?p
          \<and> (\<forall>x. Some x \<in> set (DataTable_Rows ?T) \<longrightarrow>
                \<not> MapMeasurement_accepts ?p 0 (DataColumn_Index ?c) ''PPA:9'' x)"
    by (auto simp add: example_defs MapMeasurement_accepts_def ValueAsString_def ValueAsGuid_def Cell_def
        IsEqual_def Empty_Guid_def)
  have c: "m_dataSet ?p = Some [?T]
          \<and> Table [?T] (m_primaryMeasurementTableName ?p) = Some ?T
          \<and> GetMeasurementTableIDFields ?p (m_primaryMeasurementTableName ?p) = Some ?f
          \<and> Column ?T (SignalIDFieldName ?f) = Some ?s"
    by (simp add: example_defs Table_def Column_def IsEqual_def GetMeasurementTableIDFields_def)
  have 1: "MapMeasurement ?p ?T 0 ''ID'' ''ppa:1'' =
            ?p\<lparr>m_filteredSignalIDSet := insert 7 (m_filteredSignalIDSet ?p),
              m_filteredSignalIDs := m_filteredSignalIDs ?p @ [7],
              m_filteredRows := (if m_trackFilteredRows ?p then m_filteredRows ?p @ [?R1]
                                 else m_filteredRows ?p)\<rparr>"
    using C3_map_measurement [OF col, where p = ?p and signalIDColumnIndex = 0 and mappingValue = "''ppa:1''"
        and pre = "[Some ?R0]" and r = ?R1 and post = "[Some ?R2]" and g = 7] a
    by blast
  have 2: "MapMeasurement ?p ?T 0 ''ID'' ''PPA:9'' = ?p"
    using C3_map_measurement [OF col, where p = ?p and signalIDColumnIndex = 0
        and mappingValue = "''PPA:9''"] b
    by blast
  have 3: "exitIdentifierStatement ?p (POINT_TAG_LITERAL ''\"B\"'') =
            (None, MapMeasurement ?p ?T (DataColumn_Index ?s)
                     (PointTagFieldName ?f) (ParsePointTagLiteral ''\"B\"''))"
    using C3_map_measurement [OF col, where p = ?p and dataSet = "[?T]" and idFields = ?f
        and signalIDColumn = ?s and lexeme = "''\"B\"''"] c
    by blast
  from 1 2 3 show ?thesis
    by (simp add: example_defs ParsePointTagLiteral_def)
qed

subsection \<open>The comparison is a strict weak ordering\<close>















subsection \<open>The two example sorts keep the promise of the library\<close>
















subsection \<open>The accumulators after Evaluate\<close>





















subsection \<open>The order of the matched rows\<close>




end
